theory Spec2Isabelle
  imports Main "HOL-Library.Signed_Division"
begin

text \<open>
  The health checkers of dashbrr: \<^verbatim>\<open>internal/services/autobrr\<close>,
  \<^verbatim>\<open>internal/services/maintainerr\<close>, and the packages \<^verbatim>\<open>general\<close> and
  \<^verbatim>\<open>prowlarr\<close>. Each function of the source is a function here that takes the
  environment (the upstream and the standard library) and the state (cache, clock, requests
  sent) and returns its Go results next to the new state. Names are those of the source;
  where two packages use the same name, the receiver type is put in front
  (\<open>AutobrrService_CheckHealth\<close>).
\<close>

section \<open>Strings\<close>

text \<open>
  Go strings are byte sequences, modelled as \<^typ>\<open>string\<close>; a rune is the byte sequence
  of its UTF-8 encoding.

  \<^verbatim>\<open>strings.TrimSpace\<close> removes the leading and the trailing runes that
  \<^verbatim>\<open>unicode.IsSpace\<close> accepts. \<open>space_runes\<close> lists them: the six ASCII ones (tab,
  line feed, vertical tab, form feed, carriage return, space), U+0085, U+00A0, U+1680,
  U+2000 to U+200A, U+2028, U+2029, U+202F, U+205F and U+3000. \<open>rune_at rs s\<close> is the
  width of the rune of \<open>rs\<close> that \<open>s\<close> begins with, and 0 when \<open>s\<close> begins with none. A
  byte that belongs to no well-formed encoding decodes to U+FFFD, which is not white
  space, and stays. On the right Go decodes the last rune, which is a white-space rune
  exactly when one of the encodings is a suffix of the string, so the right side is the
  left side of the reversed string with the reversed encodings.
\<close>

definition space_runes :: "string list" where
  "space_runes =
     [[CHR 0x09], [CHR 0x0A], [CHR 0x0B], [CHR 0x0C], [CHR 0x0D], [CHR 0x20],
      [CHR 0xC2, CHR 0x85], [CHR 0xC2, CHR 0xA0],
      [CHR 0xE1, CHR 0x9A, CHR 0x80],
      [CHR 0xE2, CHR 0x80, CHR 0x80], [CHR 0xE2, CHR 0x80, CHR 0x81],
      [CHR 0xE2, CHR 0x80, CHR 0x82], [CHR 0xE2, CHR 0x80, CHR 0x83],
      [CHR 0xE2, CHR 0x80, CHR 0x84], [CHR 0xE2, CHR 0x80, CHR 0x85],
      [CHR 0xE2, CHR 0x80, CHR 0x86], [CHR 0xE2, CHR 0x80, CHR 0x87],
      [CHR 0xE2, CHR 0x80, CHR 0x88], [CHR 0xE2, CHR 0x80, CHR 0x89],
      [CHR 0xE2, CHR 0x80, CHR 0x8A],
      [CHR 0xE2, CHR 0x80, CHR 0xA8], [CHR 0xE2, CHR 0x80, CHR 0xA9],
      [CHR 0xE2, CHR 0x80, CHR 0xAF], [CHR 0xE2, CHR 0x81, CHR 0x9F],
      [CHR 0xE3, CHR 0x80, CHR 0x80]]"

definition rune_at :: "string list \<Rightarrow> string \<Rightarrow> nat" where
  "rune_at rs s =
     (case find (\<lambda>r. r \<noteq> [] \<and> take (length r) s = r) rs of
        None \<Rightarrow> 0
      | Some r \<Rightarrow> length r)"

function drop_runes :: "string list \<Rightarrow> string \<Rightarrow> string" where
  "drop_runes rs s =
     (if rune_at rs s = 0 then s else drop_runes rs (drop (rune_at rs s) s))"
  by pat_completeness auto
termination
proof (relation "measure (\<lambda>(rs, s). length s)")
  show "wf (measure (\<lambda>(rs, s). length s))"
    by simp
next
  fix rs :: "string list" and s :: string
  assume pos: "rune_at rs s \<noteq> 0"
  have "rune_at rs s \<le> length s"
  proof (cases "find (\<lambda>r. r \<noteq> [] \<and> take (length r) s = r) rs")
    case None
    then show ?thesis
      by (simp add: rune_at_def)
  next
    case (Some r)
    then have "take (length r) s = r"
      by (auto simp add: find_Some_iff)
    then have "length (take (length r) s) = length r"
      by simp
    then have "length r \<le> length s"
      by (simp add: min_def split: if_splits)
    with Some show ?thesis
      by (simp add: rune_at_def)
  qed
  with pos show "((rs, drop (rune_at rs s) s), (rs, s)) \<in> measure (\<lambda>(rs, s). length s)"
    by simp
qed

declare drop_runes.simps [simp del]

definition TrimSpace :: "string \<Rightarrow> string" where
  "TrimSpace s = rev (drop_runes (map rev space_runes) (rev (drop_runes space_runes s)))"

text \<open>
  \<^verbatim>\<open>strings.Trim(s, cutset)\<close> and \<^verbatim>\<open>strings.TrimRight(s, cutset)\<close>. Every call
  of the checkers has a cutset of one ASCII character (the double quote, the slash), and
  an ASCII byte in a string is always a rune of its own, so the runes removed are the
  bytes removed.
\<close>

definition Trim :: "string \<Rightarrow> string \<Rightarrow> string" where
  "Trim s cutset =
     rev (dropWhile (\<lambda>c. c \<in> set cutset) (rev (dropWhile (\<lambda>c. c \<in> set cutset) s)))"

definition TrimRight :: "string \<Rightarrow> string \<Rightarrow> string" where
  "TrimRight s cutset = rev (dropWhile (\<lambda>c. c \<in> set cutset) (rev s))"

text \<open>
  \<^verbatim>\<open>strings.ToLower\<close> maps every rune to its lower case. The runes whose lower case
  is an ASCII character are the ASCII characters themselves (A to Z change), U+0130
  (bytes C4 B0, lower case \<^verbatim>\<open>i\<close>) and U+212A, the Kelvin sign (bytes E2 84 AA, lower
  case \<^verbatim>\<open>k\<close>); \<open>ToLower\<close> maps these as Go does. The bytes C4 and E2 only ever begin a
  rune, so wherever these byte sequences occur Go decodes these runes. Every other rune,
  and every byte of a malformed encoding, has a lower case outside ASCII in Go; \<open>ToLower\<close>
  leaves its bytes, which are outside ASCII, as they are. So \<open>ToLower s\<close> is the Go result
  whenever that result is ASCII, and is not ASCII whenever the Go result is not: for an
  ASCII text \<open>t\<close>, \<open>ToLower s = t\<close> holds exactly when it holds in Go. The checkers only
  compare the result with ASCII texts.
\<close>

definition lower_char :: "char \<Rightarrow> char" where
  "lower_char c =
     (if (65::nat) \<le> of_char c \<and> of_char c \<le> (90::nat)
      then char_of (of_char c + (32::nat)) else c)"

fun ToLower :: "string \<Rightarrow> string" where
  "ToLower [] = []"
| "ToLower (c # s) =
     (if c = CHR 0xC4 \<and> take 1 s = [CHR 0xB0] then CHR ''i'' # ToLower (drop 1 s)
      else if c = CHR 0xE2 \<and> take 2 s = [CHR 0x84, CHR 0xAA] then CHR ''k'' # ToLower (drop 2 s)
      else lower_char c # ToLower s)"

text \<open>
  \<^verbatim>\<open>strings.EqualFold\<close> compares two strings rune by rune under simple case folding,
  and \<^verbatim>\<open>encoding/json\<close> matches the key of an object with the name of a field in
  the same way. Two runes fold together when \<^verbatim>\<open>unicode.SimpleFold\<close> leads from one
  to the other. The runes that fold together with an ASCII character are the two cases
  of a letter, the Kelvin sign U+212A (bytes E2 84 AA) with \<^verbatim>\<open>K\<close> and \<^verbatim>\<open>k\<close>,
  and the long s U+017F (bytes C5 BF) with \<^verbatim>\<open>S\<close> and \<^verbatim>\<open>s\<close>. \<open>fold_case\<close> sends
  each of these to the lower-case ASCII letter and leaves every other byte as it is, so
  \<open>EqualFold s t\<close> is the Go result whenever one of the two strings is ASCII. In every
  call of the checkers, and in every match of a key with a field name, one of the two is
  an ASCII literal.
\<close>

fun fold_case :: "string \<Rightarrow> string" where
  "fold_case [] = []"
| "fold_case (c # s) =
     (if c = CHR 0xC5 \<and> take 1 s = [CHR 0xBF] then CHR ''s'' # fold_case (drop 1 s)
      else if c = CHR 0xE2 \<and> take 2 s = [CHR 0x84, CHR 0xAA] then CHR ''k'' # fold_case (drop 2 s)
      else lower_char c # fold_case s)"

definition EqualFold :: "string \<Rightarrow> string \<Rightarrow> bool" where
  "EqualFold s t \<longleftrightarrow> fold_case s = fold_case t"

text \<open>\<^verbatim>\<open>%d\<close> of \<^verbatim>\<open>fmt.Sprintf\<close>: an integer in decimal.\<close>

definition digit_char :: "nat \<Rightarrow> char" where
  "digit_char d = char_of (48 + d)"

function show_nat :: "nat \<Rightarrow> string" where
  "show_nat n = (if n < 10 then [digit_char n] else show_nat (n div 10) @ [digit_char (n mod 10)])"
  by pat_completeness auto
termination
  by (relation "measure id") auto

declare show_nat.simps [simp del]

definition show_int :: "int \<Rightarrow> string" where
  "show_int i = (if i < 0 then CHR ''-'' # show_nat (nat (- i)) else show_nat (nat i))"

section \<open>JSON, as package encoding/json reads it\<close>

text \<open>
  A JSON text is read in two layers. The syntax layer (text to value, and value to text)
  belongs to the standard library and is a parameter of the model, see \<open>env\<close> below. The
  typed layer, which stores a value into a Go variable, is modelled here for the types the
  checkers decode into whose fields are strings, booleans and integers, and for slices
  of them decoded into a fresh variable: \<^verbatim>\<open>null\<close> leaves the variable as it is, a
  value of the wrong kind is an error, an unknown object key is skipped, a key names a
  struct field when it equals the field's tag under \<open>EqualFold\<close>, and a later key
  overwrites an earlier one. A number is kept as an integer when its literal is one,
  otherwise as its literal. The collections of maintainerr are decoded by the
  environment.
\<close>

datatype json =
    JNull
  | JBool bool
  | JInt int
  | JFloat string
  | JString string
  | JArray "json list"
  | JObject "(string \<times> json) list"

text \<open>Storing into a field of type \<^verbatim>\<open>string\<close>, \<^verbatim>\<open>bool\<close> or \<^verbatim>\<open>int\<close> that holds \<open>cur\<close>.\<close>

fun into_string :: "string \<Rightarrow> json \<Rightarrow> string option" where
  "into_string cur JNull = Some cur"
| "into_string cur (JString s) = Some s"
| "into_string cur _ = None"

fun into_bool :: "bool \<Rightarrow> json \<Rightarrow> bool option" where
  "into_bool cur JNull = Some cur"
| "into_bool cur (JBool b) = Some b"
| "into_bool cur _ = None"

fun into_int :: "int \<Rightarrow> json \<Rightarrow> int option" where
  "into_int cur JNull = Some cur"
| "into_int cur (JInt i) =
     (if - (2 ^ 63) \<le> i \<and> i < 2 ^ 63 then Some i else None)"
| "into_int cur _ = None"

text \<open>
  Storing an object into a struct: \<open>field\<close> stores one member into the struct built so
  far, and the first error ends the decoding (the source discards the variable on any
  error, so the fields decoded after an error do not matter).
\<close>

fun into_members :: "(string \<Rightarrow> json \<Rightarrow> 'a \<Rightarrow> 'a option) \<Rightarrow> (string \<times> json) list \<Rightarrow> 'a \<Rightarrow> 'a option" where
  "into_members field [] cur = Some cur"
| "into_members field ((k, v) # ms) cur =
     (case field k v cur of None \<Rightarrow> None | Some cur' \<Rightarrow> into_members field ms cur')"

fun into_struct :: "(string \<Rightarrow> json \<Rightarrow> 'a \<Rightarrow> 'a option) \<Rightarrow> 'a \<Rightarrow> json \<Rightarrow> 'a option" where
  "into_struct field cur JNull = Some cur"
| "into_struct field cur (JObject ms) = into_members field ms cur"
| "into_struct field cur _ = None"

text \<open>Storing an array into a slice whose elements start from the zero value \<open>zero\<close>.\<close>

fun into_elements :: "('a \<Rightarrow> json \<Rightarrow> 'a option) \<Rightarrow> 'a \<Rightarrow> json list \<Rightarrow> 'a list option" where
  "into_elements elem zero [] = Some []"
| "into_elements elem zero (j # js) =
     (case elem zero j of None \<Rightarrow> None
      | Some x \<Rightarrow> (case into_elements elem zero js of None \<Rightarrow> None | Some xs \<Rightarrow> Some (x # xs)))"

fun into_slice :: "('a \<Rightarrow> json \<Rightarrow> 'a option) \<Rightarrow> 'a \<Rightarrow> json \<Rightarrow> 'a list option" where
  "into_slice elem zero JNull = Some []"
| "into_slice elem zero (JArray js) = into_elements elem zero js"
| "into_slice elem zero _ = None"

text \<open>
  Storing into a \<^verbatim>\<open>map[string]interface{}\<close>: only an object (or \<^verbatim>\<open>null\<close>, which leaves
  the nil map) is accepted. \<open>map_get\<close> is the map's index expression: the last member with
  that exact key.
\<close>

fun into_map :: "json \<Rightarrow> (string \<times> json) list option" where
  "into_map JNull = Some []"
| "into_map (JObject ms) = Some ms"
| "into_map _ = None"

definition map_get :: "(string \<times> json) list \<Rightarrow> string \<Rightarrow> json option" where
  "map_get ms k = map_of (rev ms) k"

section \<open>The environment and the state of a check\<close>

text \<open>
  A request as the Transport Helper receives it, and what comes back: an error of the
  transport (DNS, refused connection, TLS, expired deadline) or a response, whose body may
  in turn fail to be read.
\<close>

record request =
  req_method :: string
  req_url :: string
  req_apiKey :: string
  req_headers :: "(string \<times> string) list"

record response =
  StatusCode :: int
  X_Response_Time :: string
  Body :: "string + string"

datatype outcome = TransportError string | Response response

text \<open>
  The collections of maintainerr, \<^verbatim>\<open>Collection\<close> and \<^verbatim>\<open>Media\<close> of package
  \<^verbatim>\<open>maintainerr\<close>. The fields that \<^verbatim>\<open>Media\<close> shares with \<^verbatim>\<open>Collection\<close>
  carry the prefix \<open>Media\<close>, and a \<^verbatim>\<open>time.Time\<close> is kept as its RFC 3339 text.
\<close>

record Media =
  MediaID :: int
  CollectionID :: int
  MediaPlexID :: int
  TmdbID :: int
  MediaAddDate :: string
  ImagePath :: string
  IsManual :: bool

record Collection =
  ID :: int
  PlexID :: int
  LibraryID :: int
  Title :: string
  Description :: string
  IsActive :: bool
  ArrAction :: int
  VisibleOnHome :: bool
  DeleteAfterDays :: int
  ManualCollection :: bool
  ListExclusions :: bool
  ForceOverseerr :: bool
  Type :: int
  KeepLogsForMonths :: int
  AddDate :: string
  Media :: "Media list"

text \<open>
  The environment holds what the checkers do not decide: the upstream, which answers a
  request knowing the requests made before it, and the standard-library functions that
  are taken as given: the JSON syntax layer (\<^verbatim>\<open>json.Unmarshal\<close> reads a whole text,
  a \<^verbatim>\<open>json.Decoder\<close> reads the first value of a text, \<^verbatim>\<open>json.Marshal\<close> writes one,
  with \<open>json_error\<close> the text of the error that decoding a given body reports),
  \<^verbatim>\<open>time.ParseDuration\<close> (in nanoseconds) and \<^verbatim>\<open>http.StatusText\<close>.

  \<^verbatim>\<open>json.Unmarshal\<close> into a \<^verbatim>\<open>Collection\<close> and into a \<^verbatim>\<open>[]Collection\<close> are
  taken as given as a whole, from the text of the body to the decoded value (\<open>None\<close> when
  it reports an error). A collection holds a slice of \<^verbatim>\<open>Media\<close>, each with a
  \<^verbatim>\<open>time.Time\<close>: what the decoder leaves in a slice depends on the elements that
  an earlier occurrence of the same key left in its backing array, and a time is parsed
  from the bytes of the body, before any escape is resolved, so neither is a function of
  the JSON value alone.

  \<open>NewRequest_error method url\<close> is the error of \<^verbatim>\<open>http.NewRequestWithContext\<close>
  for a method and a URL that it refuses (a method that is not a token, a URL that does
  not parse), and \<open>None\<close> when it builds the request.
\<close>

record env =
  upstream :: "request list \<Rightarrow> request \<Rightarrow> outcome"
  json_value :: "string \<Rightarrow> json option"
  json_first :: "string \<Rightarrow> json option"
  json_text :: "json \<Rightarrow> string"
  json_error :: "string \<Rightarrow> string"
  ParseDuration :: "string \<Rightarrow> int option"
  StatusText :: "int \<Rightarrow> string"
  Unmarshal_Collection :: "string \<Rightarrow> Collection option"
  Unmarshal_Collection_list :: "string \<Rightarrow> Collection list option"
  NewRequest_error :: "string \<Rightarrow> string \<Rightarrow> string option"

text \<open>
  The state: the cache store (value and expiry instant per key), whether its backend
  answers, the clock in seconds, and the requests sent so far. The clock is advanced
  between operations, not by them.
\<close>

record world =
  store :: "string \<rightharpoonup> string \<times> nat"
  cache_up :: bool
  now :: nat
  calls :: "request list"

section \<open>Package core: the helpers shared by the checkers\<close>

text \<open>
  Modelled from the spec: \<^verbatim>\<open>ServiceCore.GetVersionFromCache\<close> and
  \<^verbatim>\<open>ServiceCore.CacheVersion\<close> (package core and the cache store are not among the
  sources). The Cache Store is \<^verbatim>\<open>get(key) -> value or absent\<close> and
  \<^verbatim>\<open>set(key, value, ttl)\<close>; a cached value is never served past its TTL; absence
  reads as the empty string; a write can fail, which the callers log and swallow.
\<close>

definition GetVersionFromCache :: "string \<Rightarrow> world \<Rightarrow> string" where
  "GetVersionFromCache key w =
     (if \<not> cache_up w then ''''
      else case store w key of
             None \<Rightarrow> ''''
           | Some (v, expiry) \<Rightarrow> if now w < expiry then v else '''')"

definition CacheVersion :: "string \<Rightarrow> string \<Rightarrow> nat \<Rightarrow> world \<Rightarrow> string option \<times> world" where
  "CacheVersion key v ttl w =
     (if \<not> cache_up w then (Some ''failed to initialize cache'', w)
      else (None, w\<lparr>store := (store w)(key \<mapsto> (v, now w + ttl))\<rparr>))"

text \<open>
  Modelled from the spec: \<^verbatim>\<open>ServiceCore.MakeRequestWithContext\<close>, the Transport
  Helper \<^verbatim>\<open>request(context-with-deadline, url, credential, header-set) -> response or
  error\<close>. Its one effect is the network call, a GET, which is recorded.
\<close>

definition MakeRequestWithContext ::
  "env \<Rightarrow> string \<Rightarrow> string \<Rightarrow> (string \<times> string) list \<Rightarrow> world \<Rightarrow> outcome \<times> world" where
  "MakeRequestWithContext e url apiKey headers w =
     (let rq = \<lparr>req_method = ''GET'', req_url = url, req_apiKey = apiKey, req_headers = headers\<rparr>
      in (upstream e (calls w) rq, w\<lparr>calls := calls w @ [rq]\<rparr>))"

text \<open>Modelled from the spec: \<^verbatim>\<open>ServiceCore.ReadBody\<close>, which reads the body once.\<close>

definition ReadBody :: "response \<Rightarrow> string + string" where
  "ReadBody resp = Body resp"

text \<open>
  \<^verbatim>\<open>time.ParseDuration(resp.Header.Get("X-Response-Time") + "ms")\<close> with its error
  dropped (the zero duration), then \<^verbatim>\<open>Milliseconds()\<close>, which truncates.
\<close>

definition responseTime_ms :: "env \<Rightarrow> response \<Rightarrow> int" where
  "responseTime_ms e resp =
     (case ParseDuration e (X_Response_Time resp @ ''ms'') of
        None \<Rightarrow> 0
      | Some d \<Rightarrow> d sdiv 1000000)"


section \<open>The Health Response Model\<close>

record IRCStatus =
  Name :: string
  Healthy :: bool
  Enabled :: bool

record AutobrrStats =
  TotalCount :: int
  FilteredCount :: int
  FilterRejectedCount :: int
  PushApprovedCount :: int
  PushRejectedCount :: int
  PushErrorCount :: int

text \<open>The values a checker puts into the extras map (\<^verbatim>\<open>map[string]interface{}\<close>).\<close>

datatype extra =
    XString string
  | XInt int
  | XBool bool
  | XIRC "IRCStatus list"
  | XStats AutobrrStats
  | XMap "(string \<times> extra) list"

text \<open>
  Modelled from the spec: \<^verbatim>\<open>models.ServiceHealth\<close> and
  \<^verbatim>\<open>ServiceCore.CreateHealthResponse\<close> (packages models and core are not among the
  sources). A HealthResult is a status, a human-readable message, a start timestamp and an
  open-ended map of extras; it is constructed fresh on every check. The elapsed time,
  which is read off the wall clock, is left out. The extras are the optional last
  argument, empty when it is absent.
\<close>

record ServiceHealth =
  Status :: string
  Message :: string
  LastChecked :: nat
  Extras :: "(string \<times> extra) list"

definition CreateHealthResponse ::
  "nat \<Rightarrow> string \<Rightarrow> string \<Rightarrow> (string \<times> extra) list \<Rightarrow> ServiceHealth" where
  "CreateHealthResponse startTime status message extras =
     \<lparr>Status = status, Message = message, LastChecked = startTime, Extras = extras\<rparr>"

text \<open>The index expression \<^verbatim>\<open>extras[key]\<close> on an extras map.\<close>

definition extras_get :: "(string \<times> extra) list \<Rightarrow> string \<Rightarrow> extra option" where
  "extras_get xs k = map_of xs k"

text \<open>
  A check starts auxiliary tasks and later waits for each of them for a grace period of two
  seconds. Whether a task has delivered by then is decided by the scheduler and the
  network, so it is an input of the model.
\<close>

record schedule =
  version_in_time :: bool
  update_in_time :: bool

section \<open>The autobrr checker\<close>

record VersionResponse =
  Version :: string

definition IRCStatus_zero :: IRCStatus where
  "IRCStatus_zero = \<lparr>Name = '''', Healthy = False, Enabled = False\<rparr>"

definition IRCStatus_field :: "string \<Rightarrow> json \<Rightarrow> IRCStatus \<Rightarrow> IRCStatus option" where
  "IRCStatus_field k v s =
     (if EqualFold k ''name'' then map_option (\<lambda>x. s\<lparr>Name := x\<rparr>) (into_string (Name s) v)
      else if EqualFold k ''healthy'' then map_option (\<lambda>x. s\<lparr>Healthy := x\<rparr>) (into_bool (Healthy s) v)
      else if EqualFold k ''enabled'' then map_option (\<lambda>x. s\<lparr>Enabled := x\<rparr>) (into_bool (Enabled s) v)
      else Some s)"

text \<open>\<^verbatim>\<open>json.Unmarshal\<close> into an \<^verbatim>\<open>IRCStatus\<close> and into a \<^verbatim>\<open>[]IRCStatus\<close>.\<close>

definition Unmarshal_IRCStatus :: "env \<Rightarrow> string \<Rightarrow> IRCStatus option" where
  "Unmarshal_IRCStatus e body =
     (case json_value e body of
        None \<Rightarrow> None
      | Some j \<Rightarrow> into_struct IRCStatus_field IRCStatus_zero j)"

definition Unmarshal_IRCStatus_list :: "env \<Rightarrow> string \<Rightarrow> IRCStatus list option" where
  "Unmarshal_IRCStatus_list e body =
     (case json_value e body of
        None \<Rightarrow> None
      | Some j \<Rightarrow> into_slice (into_struct IRCStatus_field) IRCStatus_zero j)"

text \<open>
  \<^verbatim>\<open>json.Marshal\<close> of a \<^verbatim>\<open>[]IRCStatus\<close>, which cannot fail: a nil slice is
  \<^verbatim>\<open>null\<close>, any other an array of objects.
\<close>

definition IRCStatus_json :: "IRCStatus \<Rightarrow> json" where
  "IRCStatus_json s =
     JObject [(''name'', JString (Name s)), (''healthy'', JBool (Healthy s)),
              (''enabled'', JBool (Enabled s))]"

definition Marshal_IRCStatus_list :: "env \<Rightarrow> bool \<Rightarrow> IRCStatus list \<Rightarrow> string" where
  "Marshal_IRCStatus_list e is_nil xs =
     json_text e (if is_nil then JNull else JArray (map IRCStatus_json xs))"

definition VersionResponse_field :: "string \<Rightarrow> json \<Rightarrow> VersionResponse \<Rightarrow> VersionResponse option" where
  "VersionResponse_field k v r =
     (if EqualFold k ''version'' then map_option (\<lambda>x. r\<lparr>Version := x\<rparr>) (into_string (Version r) v)
      else Some r)"

definition Unmarshal_VersionResponse :: "env \<Rightarrow> string \<Rightarrow> VersionResponse option" where
  "Unmarshal_VersionResponse e body =
     (case json_value e body of
        None \<Rightarrow> None
      | Some j \<Rightarrow> into_struct VersionResponse_field \<lparr>Version = ''''\<rparr> j)"

definition AutobrrStats_zero :: AutobrrStats where
  "AutobrrStats_zero =
     \<lparr>TotalCount = 0, FilteredCount = 0, FilterRejectedCount = 0, PushApprovedCount = 0,
      PushRejectedCount = 0, PushErrorCount = 0\<rparr>"

definition AutobrrStats_field :: "string \<Rightarrow> json \<Rightarrow> AutobrrStats \<Rightarrow> AutobrrStats option" where
  "AutobrrStats_field k v s =
     (if EqualFold k ''total_count''
        then map_option (\<lambda>x. s\<lparr>TotalCount := x\<rparr>) (into_int (TotalCount s) v)
      else if EqualFold k ''filtered_count''
        then map_option (\<lambda>x. s\<lparr>FilteredCount := x\<rparr>) (into_int (FilteredCount s) v)
      else if EqualFold k ''filter_rejected_count''
        then map_option (\<lambda>x. s\<lparr>FilterRejectedCount := x\<rparr>) (into_int (FilterRejectedCount s) v)
      else if EqualFold k ''push_approved_count''
        then map_option (\<lambda>x. s\<lparr>PushApprovedCount := x\<rparr>) (into_int (PushApprovedCount s) v)
      else if EqualFold k ''push_rejected_count''
        then map_option (\<lambda>x. s\<lparr>PushRejectedCount := x\<rparr>) (into_int (PushRejectedCount s) v)
      else if EqualFold k ''push_error_count''
        then map_option (\<lambda>x. s\<lparr>PushErrorCount := x\<rparr>) (into_int (PushErrorCount s) v)
      else Some s)"

text \<open>\<^verbatim>\<open>decoder.Decode(&stats)\<close>: the first JSON value of the body, into the struct.\<close>

definition Decode_AutobrrStats :: "env \<Rightarrow> string \<Rightarrow> AutobrrStats option" where
  "Decode_AutobrrStats e body =
     (case json_first e body of
        None \<Rightarrow> None
      | Some j \<Rightarrow> into_struct AutobrrStats_field AutobrrStats_zero j)"

definition getEndpoint :: "string \<Rightarrow> string \<Rightarrow> string" where
  "getEndpoint baseURL path = TrimRight baseURL ''/'' @ path"


text \<open>
  A Go function that returns \<^verbatim>\<open>(value, error)\<close> is modelled as returning the pair of the
  value and an optional error text, \<open>None\<close> for \<^verbatim>\<open>nil\<close>, next to the new state.
  What a function prints with \<^verbatim>\<open>fmt.Printf\<close> when it drops an error is not modelled.
\<close>

definition GetReleaseStats ::
  "env \<Rightarrow> string \<Rightarrow> string \<Rightarrow> world \<Rightarrow> (AutobrrStats \<times> string option) \<times> world" where
  "GetReleaseStats e url apiKey w =
     (if url = '''' \<or> apiKey = ''''
      then ((AutobrrStats_zero, Some ''service not configured: missing URL or API key''), w)
      else
        let statsURL = getEndpoint url ''/api/release/stats'';
            headers = [(''auth_header'', ''X-Api-Token''), (''auth_value'', apiKey)];
            (res, w1) = MakeRequestWithContext e statsURL apiKey headers w
        in case res of
             TransportError err \<Rightarrow> ((AutobrrStats_zero, Some (''request failed: '' @ err)), w1)
           | Response resp \<Rightarrow>
               if StatusCode resp \<noteq> 200
               then ((AutobrrStats_zero,
                      Some (''unexpected status code: '' @ show_int (StatusCode resp))), w1)
               else
                 (case ReadBody resp of
                    Inl err \<Rightarrow>
                      ((AutobrrStats_zero, Some (''failed to read response body: '' @ err)), w1)
                  | Inr body \<Rightarrow>
                      (case Decode_AutobrrStats e body of
                         None \<Rightarrow>
                           ((AutobrrStats_zero,
                             Some (''failed to decode response: '' @ json_error e body
                                   @ '', body: '' @ body)), w1)
                       | Some stats \<Rightarrow> ((stats, None), w1))))"

definition GetIRCStatusFromCache :: "string \<Rightarrow> world \<Rightarrow> string" where
  "GetIRCStatusFromCache url w =
     (let status = GetVersionFromCache (url @ ''_irc'') w
      in if status \<noteq> '''' then status else '''')"

definition CacheIRCStatus :: "string \<Rightarrow> string \<Rightarrow> world \<Rightarrow> string option \<times> world" where
  "CacheIRCStatus url status w = CacheVersion (url @ ''_irc'') status (5 * 60) w"

text \<open>
  The part of \<^verbatim>\<open>GetIRCStatus\<close> after the body has been read: the lenient decoding,
  the filter and the caching of the result. The error of a cache write is printed and
  dropped.
\<close>

definition decode_IRCStatus_body ::
  "env \<Rightarrow> string \<Rightarrow> string \<Rightarrow> world \<Rightarrow> (IRCStatus list \<times> string option) \<times> world" where
  "decode_IRCStatus_body e url body w =
     (case Unmarshal_IRCStatus_list e body of
        Some allStatus \<Rightarrow>
          let unhealthyStatus = filter (\<lambda>status. \<not> Healthy status \<and> Enabled status) allStatus;
              cached = Marshal_IRCStatus_list e (unhealthyStatus = []) unhealthyStatus;
              (_, w1) = CacheIRCStatus url cached w
          in ((unhealthyStatus, None), w1)
      | None \<Rightarrow>
          (case Unmarshal_IRCStatus e body of
             Some singleStatus \<Rightarrow>
               if \<not> Healthy singleStatus \<and> Enabled singleStatus
               then
                 let status = [singleStatus];
                     cached = Marshal_IRCStatus_list e False status;
                     (_, w1) = CacheIRCStatus url cached w
                 in ((status, None), w1)
               else
                 let (_, w1) = CacheIRCStatus url ''[]'' w
                 in (([], None), w1)
           | None \<Rightarrow>
               (([\<lparr>Name = ''IRC'', Healthy = False, Enabled = False\<rparr>],
                 Some (''failed to decode response: '' @ body)), w)))"

definition fetch_IRCStatus ::
  "env \<Rightarrow> string \<Rightarrow> string \<Rightarrow> world \<Rightarrow> (IRCStatus list \<times> string option) \<times> world" where
  "fetch_IRCStatus e url apiKey w =
     (let ircURL = getEndpoint url ''/api/irc'';
          headers = [(''auth_header'', ''X-Api-Token''), (''auth_value'', apiKey)];
          (res, w1) = MakeRequestWithContext e ircURL apiKey headers w
      in case res of
           TransportError err \<Rightarrow>
             (([\<lparr>Name = ''IRC'', Healthy = False, Enabled = False\<rparr>],
               Some (''request failed: '' @ err)), w1)
         | Response resp \<Rightarrow>
             if StatusCode resp \<noteq> 200
             then (([\<lparr>Name = ''IRC'', Healthy = False, Enabled = False\<rparr>],
                    Some (''unexpected status code: '' @ show_int (StatusCode resp))), w1)
             else
               (case ReadBody resp of
                  Inl err \<Rightarrow>
                    (([\<lparr>Name = ''IRC'', Healthy = False, Enabled = False\<rparr>],
                      Some (''failed to read response body: '' @ err)), w1)
                | Inr body \<Rightarrow> decode_IRCStatus_body e url body w1))"

definition GetIRCStatus ::
  "env \<Rightarrow> string \<Rightarrow> string \<Rightarrow> world \<Rightarrow> (IRCStatus list \<times> string option) \<times> world" where
  "GetIRCStatus e url apiKey w =
     (if url = '''' \<or> apiKey = ''''
      then (([], Some ''service not configured: missing URL or API key''), w)
      else
        let cached = GetIRCStatusFromCache url w
        in case (if cached \<noteq> '''' then Unmarshal_IRCStatus_list e cached else None) of
             Some status \<Rightarrow> ((status, None), w)
           | None \<Rightarrow> fetch_IRCStatus e url apiKey w)"

definition GetVersion ::
  "env \<Rightarrow> string \<Rightarrow> string \<Rightarrow> world \<Rightarrow> (string \<times> string option) \<times> world" where
  "GetVersion e url apiKey w =
     (let version = GetVersionFromCache url w
      in if version \<noteq> '''' then ((version, None), w)
         else
           let versionURL = getEndpoint url ''/api/config'';
               headers = [(''auth_header'', ''X-Api-Token''), (''auth_value'', apiKey)];
               (res, w1) = MakeRequestWithContext e versionURL apiKey headers w
           in case res of
                TransportError err \<Rightarrow> (('''', Some err), w1)
              | Response resp \<Rightarrow>
                  if StatusCode resp \<noteq> 200
                  then (('''', Some (''unexpected status code: '' @ show_int (StatusCode resp))), w1)
                  else
                    (case ReadBody resp of
                       Inl err \<Rightarrow> (('''', Some err), w1)
                     | Inr body \<Rightarrow>
                         (case Unmarshal_VersionResponse e body of
                            None \<Rightarrow> (('''', Some (json_error e body)), w1)
                          | Some versionData \<Rightarrow>
                              let (_, w2) = CacheVersion url (Version versionData) (2 * 3600) w1
                              in ((Version versionData, None), w2))))"

definition GetUpdateFromCache :: "string \<Rightarrow> world \<Rightarrow> string" where
  "GetUpdateFromCache url w =
     (let update = GetVersionFromCache (url @ ''_update'') w
      in if update \<noteq> '''' then update else '''')"

definition CacheUpdate :: "string \<Rightarrow> string \<Rightarrow> nat \<Rightarrow> world \<Rightarrow> string option \<times> world" where
  "CacheUpdate url status ttl w = CacheVersion (url @ ''_update'') status ttl w"

definition CheckUpdate ::
  "env \<Rightarrow> string \<Rightarrow> string \<Rightarrow> world \<Rightarrow> (bool \<times> string option) \<times> world" where
  "CheckUpdate e url apiKey w =
     (let status = GetUpdateFromCache url w
      in if status \<noteq> '''' then ((status = ''true'', None), w)
         else
           let updateURL = getEndpoint url ''/api/updates/latest'';
               headers = [(''auth_header'', ''X-Api-Token''), (''auth_value'', apiKey)];
               (res, w1) = MakeRequestWithContext e updateURL apiKey headers w
           in case res of
                TransportError err \<Rightarrow> ((False, Some err), w1)
              | Response resp \<Rightarrow>
                  let hasUpdate = (StatusCode resp = 200);
                      status = (if hasUpdate then ''true'' else ''false'');
                      (_, w2) = CacheUpdate url status (2 * 3600) w1
                  in ((hasUpdate, None), w2))"


text \<open>
  \<^verbatim>\<open>AutobrrService.CheckHealth\<close>. The two background tasks (version and update) are started
  right after the configuration guard; each puts one value on its own buffered channel and
  touches nothing else but the cache and the network. The main flow reads a channel only
  in its \<^verbatim>\<open>select\<close>, where the schedule says whether the value is there within the
  grace period; otherwise the variable keeps its zero value. The effects of the tasks are
  placed before those of the main flow. Nothing is lost by that: the upstream answers each
  request in the knowledge of the requests before it, so that every assignment of answers
  to the five requests is covered, and the cache keys of the tasks (the URL, and the URL
  with \<^verbatim>\<open>_update\<close>) are not the key that the main flow reads (the URL with
  \<^verbatim>\<open>_irc\<close>).
\<close>

definition AutobrrService_CheckHealth ::
  "env \<Rightarrow> schedule \<Rightarrow> string \<Rightarrow> string \<Rightarrow> world \<Rightarrow> (ServiceHealth \<times> int) \<times> world" where
  "AutobrrService_CheckHealth e sch url apiKey w =
     (let startTime = now w
      in if url = '''' \<or> apiKey = ''''
         then ((CreateHealthResponse startTime ''pending'' ''Autobrr not configured'' [], 200), w)
         else
           let ((taskVersion, taskVersionErr), w1) = GetVersion e url apiKey w;
               versionChan = (if taskVersionErr \<noteq> None then '''' else taskVersion);
               ((taskUpdate, taskUpdateErr), w2) = CheckUpdate e url apiKey w1;
               updateChan = (if taskUpdateErr \<noteq> None then False else taskUpdate);
               ((stats, statsErr), w3) = GetReleaseStats e url apiKey w2;
               livenessURL = getEndpoint url ''/api/healthz/liveness'';
               headers = [(''auth_header'', ''X-Api-Token''), (''auth_value'', apiKey)];
               (res, w4) = MakeRequestWithContext e livenessURL apiKey headers w3
           in case res of
                TransportError err \<Rightarrow>
                  ((CreateHealthResponse startTime ''offline'' (''Failed to connect: '' @ err) [],
                    200), w4)
              | Response resp \<Rightarrow>
                  let responseTime = responseTime_ms e resp
                  in if StatusCode resp \<noteq> 200
                     then ((CreateHealthResponse startTime ''error''
                              (''Unexpected status code: '' @ show_int (StatusCode resp)) [],
                            200), w4)
                     else
                       (case ReadBody resp of
                          Inl err \<Rightarrow>
                            ((CreateHealthResponse startTime ''error''
                                (''Failed to read response: '' @ err) [], 200), w4)
                        | Inr body \<Rightarrow>
                            let trimmedBody = Trim (TrimSpace body) [CHR 0x22]
                            in if trimmedBody \<noteq> ''healthy'' \<and> trimmedBody \<noteq> ''OK''
                               then ((CreateHealthResponse startTime ''error''
                                        (''Autobrr reported unhealthy status: '' @ trimmedBody) [],
                                      200), w4)
                               else
                                 let version = (if version_in_time sch then versionChan else '''');
                                     hasUpdate = (if update_in_time sch then updateChan else False);
                                     ((ircStatus, ircErr), w5) = GetIRCStatus e url apiKey w4
                                 in (case ircErr of
                                      Some err \<Rightarrow>
                                        ((CreateHealthResponse startTime ''warning''
                                            (''Autobrr is running but IRC status check failed: '' @ err)
                                            [(''version'', XString version),
                                             (''responseTime'', XInt responseTime),
                                             (''updateAvailable'', XBool hasUpdate),
                                             (''details'', XMap [(''autobrr'', XMap [(''irc'', XIRC ircStatus)])]),
                                             (''stats'', XMap [(''autobrr'', XStats stats)])],
                                          200), w5)
                                    | None \<Rightarrow>
                                        let ircHealthy =
                                              (if length ircStatus = 0 then True
                                               else list_ex Healthy ircStatus);
                                            extras =
                                              [(''version'', XString version),
                                               (''responseTime'', XInt responseTime),
                                               (''updateAvailable'', XBool hasUpdate),
                                               (''stats'', XMap [(''autobrr'', XStats stats)])]
                                        in if \<not> ircHealthy
                                           then ((CreateHealthResponse startTime ''warning''
                                                    ''Autobrr is running but reports unhealthy IRC connections''
                                                    (extras @ [(''details'',
                                                       XMap [(''autobrr'', XMap [(''irc'', XIRC ircStatus)])])]),
                                                  200), w5)
                                           else ((CreateHealthResponse startTime ''online''
                                                    ''Autobrr is running'' extras, 200), w5))))"

section \<open>The generic-HTTP checker\<close>

definition GeneralService_CheckHealth ::
  "env \<Rightarrow> string \<Rightarrow> string \<Rightarrow> world \<Rightarrow> (ServiceHealth \<times> int) \<times> world" where
  "GeneralService_CheckHealth e url apiKey w =
     (let startTime = now w
      in if url = ''''
         then ((CreateHealthResponse startTime ''error'' ''URL is required'' [], 400), w)
         else
           let headers = (if apiKey \<noteq> '''' then [(''Authorization'', ''Bearer '' @ apiKey)] else []);
               (res, w1) = MakeRequestWithContext e url apiKey headers w
           in case res of
                TransportError err \<Rightarrow>
                  ((CreateHealthResponse startTime ''offline'' (''Failed to connect: '' @ err) [],
                    503), w1)
              | Response resp \<Rightarrow>
                  let responseTime = responseTime_ms e resp
                  in (case Body resp of
                       Inl err \<Rightarrow>
                         ((CreateHealthResponse startTime ''error''
                             (''Failed to read response: '' @ err) [], 500), w1)
                     | Inr body \<Rightarrow>
                         (case (case json_value e body of None \<Rightarrow> None | Some j \<Rightarrow> into_map j) of
                            Some jsonResponse \<Rightarrow>
                              let status =
                                    (case map_get jsonResponse ''status'' of
                                       Some (JString statusVal) \<Rightarrow>
                                         (let l = ToLower statusVal
                                          in if l = ''healthy'' \<or> l = ''ok'' \<or> l = ''online''
                                               then ''online''
                                             else if l = ''unhealthy'' \<or> l = ''error'' \<or> l = ''offline''
                                               then ''offline''
                                             else if l = ''warning'' then ''warning''
                                             else ''unknown'')
                                     | _ \<Rightarrow> ''online'');
                                  message =
                                    (case map_get jsonResponse ''message'' of
                                       Some (JString messageVal) \<Rightarrow> messageVal
                                     | _ \<Rightarrow> '''');
                                  extras = [(''responseTime'', XInt responseTime)]
                              in ((CreateHealthResponse startTime status message extras,
                                   StatusCode resp), w1)
                          | None \<Rightarrow>
                              let textResponse = TrimSpace body;
                                  extras = [(''responseTime'', XInt responseTime)]
                              in if EqualFold textResponse ''ok''
                                 then ((CreateHealthResponse startTime ''online'' '''' extras,
                                        StatusCode resp), w1)
                                 else ((CreateHealthResponse startTime ''error''
                                          (''Unexpected response: '' @ textResponse) extras,
                                        StatusCode resp), w1))))"

definition GeneralService_GetVersion :: "string \<Rightarrow> string \<Rightarrow> string \<times> string option" where
  "GeneralService_GetVersion url apiKey = ('''', None)"


section \<open>The maintainerr checker\<close>

record ErrMaintainerr =
  Op :: string
  Err :: "string option"
  HttpCode :: int

definition ErrMaintainerr_Error :: "env \<Rightarrow> ErrMaintainerr \<Rightarrow> string" where
  "ErrMaintainerr_Error e er =
     (if HttpCode er > 0
      then ''maintainerr '' @ Op er @ '': server returned '' @ StatusText e (HttpCode er)
           @ '' ('' @ show_int (HttpCode er) @ '')''
      else case Err er of
             Some err \<Rightarrow> ''maintainerr '' @ Op er @ '': '' @ err
           | None \<Rightarrow> ''maintainerr '' @ Op er)"

text \<open>The field \<^verbatim>\<open>Version\<close> of \<^verbatim>\<open>StatusResponse\<close> is \<open>StatusVersion\<close> here.\<close>

record StatusResponse =
  StatusVersion :: string
  UpdateAvailable :: bool

definition StatusResponse_field :: "string \<Rightarrow> json \<Rightarrow> StatusResponse \<Rightarrow> StatusResponse option" where
  "StatusResponse_field k v r =
     (if EqualFold k ''version''
        then map_option (\<lambda>x. r\<lparr>StatusVersion := x\<rparr>) (into_string (StatusVersion r) v)
      else if EqualFold k ''updateAvailable''
        then map_option (\<lambda>x. r\<lparr>UpdateAvailable := x\<rparr>) (into_bool (UpdateAvailable r) v)
      else Some r)"

definition Unmarshal_StatusResponse :: "env \<Rightarrow> string \<Rightarrow> StatusResponse option" where
  "Unmarshal_StatusResponse e body =
     (case json_value e body of
        None \<Rightarrow> None
      | Some j \<Rightarrow> into_struct StatusResponse_field \<lparr>StatusVersion = '''', UpdateAvailable = False\<rparr> j)"

text \<open>The zero value of \<^verbatim>\<open>Collection\<close>, which \<^verbatim>\<open>var collection Collection\<close> declares.\<close>

definition Collection_zero :: Collection where
  "Collection_zero =
     \<lparr>ID = 0, PlexID = 0, LibraryID = 0, Title = '''', Description = '''', IsActive = False,
      ArrAction = 0, VisibleOnHome = False, DeleteAfterDays = 0, ManualCollection = False,
      ListExclusions = False, ForceOverseerr = False, Type = 0, KeepLogsForMonths = 0,
      AddDate = '''', Media = []\<rparr>"

definition MaintainerrService_GetHealthEndpoint :: "string \<Rightarrow> string" where
  "MaintainerrService_GetHealthEndpoint baseURL = TrimRight baseURL ''/'' @ ''/api/app/status''"

definition getVersion ::
  "env \<Rightarrow> string \<Rightarrow> world \<Rightarrow> (string \<times> ErrMaintainerr option) \<times> world" where
  "getVersion e url w =
     (let version = GetVersionFromCache url w
      in if version \<noteq> '''' then ((version, None), w)
         else
           let healthEndpoint = MaintainerrService_GetHealthEndpoint url;
               (res, w1) = MakeRequestWithContext e healthEndpoint '''' [] w
           in case res of
                TransportError err \<Rightarrow>
                  (('''', Some \<lparr>Op = ''get_version'',
                                Err = Some (''failed to make request: '' @ err), HttpCode = 0\<rparr>), w1)
              | Response resp \<Rightarrow>
                  (case ReadBody resp of
                     Inl err \<Rightarrow>
                       (('''', Some \<lparr>Op = ''get_version'',
                                     Err = Some (''failed to read response: '' @ err), HttpCode = 0\<rparr>), w1)
                   | Inr body \<Rightarrow>
                       (case Unmarshal_StatusResponse e body of
                          None \<Rightarrow>
                            (('''', Some \<lparr>Op = ''get_version'',
                                          Err = Some (''failed to parse response: '' @ json_error e body),
                                          HttpCode = 0\<rparr>), w1)
                        | Some statusResponse \<Rightarrow>
                            let (_, w2) = CacheVersion url (StatusVersion statusResponse) 3600 w1
                            in ((StatusVersion statusResponse, None), w2))))"


text \<open>
  \<^verbatim>\<open>MaintainerrService.CheckHealth\<close>. The version task is started right after the URL
  guard and puts its version and its error on two buffered channels; the
  \<^verbatim>\<open>select\<close> either receives both or, after the grace period, sets the error to
  \<^verbatim>\<open>version check timed out\<close>. The request of the task is placed before the probe
  of the main flow; the two are the same request, and the upstream may answer them
  differently, since it knows which came first.
\<close>

definition MaintainerrService_CheckHealth ::
  "env \<Rightarrow> schedule \<Rightarrow> string \<Rightarrow> string \<Rightarrow> world \<Rightarrow> (ServiceHealth \<times> int) \<times> world" where
  "MaintainerrService_CheckHealth e sch url apiKey w =
     (let startTime = now w
      in if url = ''''
         then ((CreateHealthResponse startTime ''error'' ''URL is required'' [], 400), w)
         else
           let ((taskVersion, taskErr), w1) = getVersion e url w;
               healthEndpoint = MaintainerrService_GetHealthEndpoint url;
               (res, w2) = MakeRequestWithContext e healthEndpoint '''' [] w1
           in case res of
                TransportError err \<Rightarrow>
                  ((CreateHealthResponse startTime ''offline'' (''Failed to connect: '' @ err) [],
                    200), w2)
              | Response resp \<Rightarrow>
                  let responseTime = responseTime_ms e resp
                  in (case ReadBody resp of
                        Inl err \<Rightarrow>
                          ((CreateHealthResponse startTime ''error''
                              (''Failed to read response: '' @ err) [], 200), w2)
                      | Inr body \<Rightarrow>
                          if StatusCode resp \<ge> 400
                          then
                            let statusText = StatusText e (StatusCode resp);
                                status = ''error'';
                                message =
                                  (if StatusCode resp = 502 \<or> StatusCode resp = 503
                                      \<or> StatusCode resp = 504
                                     then ''Service is temporarily unavailable (''
                                          @ show_int (StatusCode resp) @ '' '' @ statusText @ '')''
                                   else if StatusCode resp = 401 then ''Invalid API key''
                                   else if StatusCode resp = 403 then ''Access forbidden''
                                   else if StatusCode resp = 404 then ''Service endpoint not found''
                                   else ''Server returned '' @ statusText @ '' (''
                                        @ show_int (StatusCode resp) @ '')'')
                            in ((CreateHealthResponse startTime status message [], 200), w2)
                          else
                            (case Unmarshal_StatusResponse e body of
                               None \<Rightarrow>
                                 ((CreateHealthResponse startTime ''error''
                                     (''Failed to parse status response: '' @ json_error e body) [],
                                   200), w2)
                             | Some statusResponse \<Rightarrow>
                                 let (version, versionErr) =
                                       (if version_in_time sch
                                        then (taskVersion, map_option (ErrMaintainerr_Error e) taskErr)
                                        else ('''', Some ''version check timed out''));
                                     extras =
                                       [(''version'', XString version),
                                        (''updateAvailable'', XBool (UpdateAvailable statusResponse)),
                                        (''responseTime'', XInt responseTime)]
                                       @ (case versionErr of
                                            Some err \<Rightarrow> [(''versionError'', XString err)]
                                          | None \<Rightarrow> [])
                                 in ((CreateHealthResponse startTime ''online'' ''Healthy'' extras,
                                      200), w2))))"

text \<open>
  The part of \<^verbatim>\<open>GetCollections\<close> after the body has been read: the lenient decoding
  and the filter on active collections.
\<close>

definition decode_Collections_body ::
  "env \<Rightarrow> string \<Rightarrow> Collection list \<times> ErrMaintainerr option" where
  "decode_Collections_body e body =
     (case (case Unmarshal_Collection_list e body of
              Some collections \<Rightarrow> Some collections
            | None \<Rightarrow>
                (case Unmarshal_Collection e body of
                   None \<Rightarrow> None
                 | Some singleCollection \<Rightarrow>
                     if IsActive singleCollection then Some [singleCollection]
                     else Some [])) of
        None \<Rightarrow>
          ([], Some \<lparr>Op = ''get_collections'',
                      Err = Some (''failed to parse response: '' @ json_error e body),
                      HttpCode = 0\<rparr>)
      | Some collections \<Rightarrow>
          let activeCollections = filter IsActive collections
          in (activeCollections, None))"

definition GetCollections ::
  "env \<Rightarrow> string \<Rightarrow> string \<Rightarrow> world \<Rightarrow> (Collection list \<times> ErrMaintainerr option) \<times> world" where
  "GetCollections e url apiKey w =
     (if url = ''''
      then (([], Some \<lparr>Op = ''get_collections'', Err = Some ''URL is required'', HttpCode = 0\<rparr>), w)
      else if apiKey = ''''
      then (([], Some \<lparr>Op = ''get_collections'', Err = Some ''API key is required'', HttpCode = 0\<rparr>), w)
      else
        let baseURL = TrimRight url ''/'';
            endpoint = baseURL @ ''/api/collections'';
            (res, w1) = MakeRequestWithContext e endpoint apiKey [] w
        in case res of
             TransportError err \<Rightarrow>
               (([], Some \<lparr>Op = ''get_collections'',
                            Err = Some (''failed to connect: '' @ err), HttpCode = 0\<rparr>), w1)
           | Response resp \<Rightarrow>
               if StatusCode resp \<noteq> 200
               then (([], Some \<lparr>Op = ''get_collections'', Err = None,
                                 HttpCode = StatusCode resp\<rparr>), w1)
               else
                 (case ReadBody resp of
                    Inl err \<Rightarrow>
                      (([], Some \<lparr>Op = ''get_collections'',
                                   Err = Some (''failed to read response: '' @ err), HttpCode = 0\<rparr>), w1)
                  | Inr body \<Rightarrow> (decode_Collections_body e body, w1)))"

section \<open>The prowlarr checker\<close>

text \<open>The fields of \<^verbatim>\<open>ErrProwlarr\<close> carry the prefix \<open>Prowlarr\<close>.\<close>

record ErrProwlarr =
  ProwlarrOp :: string
  ProwlarrErr :: "string option"
  ProwlarrHttpCode :: int

definition ErrProwlarr_Error :: "env \<Rightarrow> ErrProwlarr \<Rightarrow> string" where
  "ErrProwlarr_Error e er =
     (if ProwlarrHttpCode er > 0
      then ''prowlarr '' @ ProwlarrOp er @ '': server returned ''
           @ StatusText e (ProwlarrHttpCode er) @ '' ('' @ show_int (ProwlarrHttpCode er) @ '')''
      else case ProwlarrErr er of
             Some err \<Rightarrow> ''prowlarr '' @ ProwlarrOp er @ '': '' @ err
           | None \<Rightarrow> ''prowlarr '' @ ProwlarrOp er)"

record SystemStatusResponse =
  SystemVersion :: string

definition SystemStatusResponse_field ::
  "string \<Rightarrow> json \<Rightarrow> SystemStatusResponse \<Rightarrow> SystemStatusResponse option" where
  "SystemStatusResponse_field k v r =
     (if EqualFold k ''version''
        then map_option (\<lambda>x. r\<lparr>SystemVersion := x\<rparr>) (into_string (SystemVersion r) v)
      else Some r)"

definition Unmarshal_SystemStatusResponse :: "env \<Rightarrow> string \<Rightarrow> SystemStatusResponse option" where
  "Unmarshal_SystemStatusResponse e body =
     (case json_value e body of
        None \<Rightarrow> None
      | Some j \<Rightarrow> into_struct SystemStatusResponse_field \<lparr>SystemVersion = ''''\<rparr> j)"

text \<open>
  \<^verbatim>\<open>makeRequest\<close> builds its own request and sends it with a fresh client. When
  \<^verbatim>\<open>http.NewRequestWithContext\<close> fails, its error is returned and nothing is sent; the
  caller sees it as it sees an error of the transport.
\<close>

definition makeRequest :: "env \<Rightarrow> string \<Rightarrow> string \<Rightarrow> string \<Rightarrow> world \<Rightarrow> outcome \<times> world" where
  "makeRequest e method url apiKey w =
     (case NewRequest_error e method url of
        Some err \<Rightarrow> (TransportError err, w)
      | None \<Rightarrow>
          let rq = \<lparr>req_method = method, req_url = url, req_apiKey = apiKey,
                     req_headers = [(''X-Api-Key'', apiKey), (''Accept'', ''*/*'')]\<rparr>
          in (upstream e (calls w) rq, w\<lparr>calls := calls w @ [rq]\<rparr>))"

definition GetSystemStatus ::
  "env \<Rightarrow> string \<Rightarrow> string \<Rightarrow> world \<Rightarrow> (string \<times> ErrProwlarr option) \<times> world" where
  "GetSystemStatus e baseURL apiKey w =
     (if baseURL = ''''
      then (('''', Some \<lparr>ProwlarrOp = ''get_system_status'', ProwlarrErr = Some ''URL is required'',
                         ProwlarrHttpCode = 0\<rparr>), w)
      else
        let version = GetVersionFromCache baseURL w
        in if version \<noteq> '''' then ((version, None), w)
           else
             let statusURL = TrimRight baseURL ''/'' @ ''/api/v1/system/status'';
                 (res, w1) = makeRequest e ''GET'' statusURL apiKey w
             in case res of
                  TransportError err \<Rightarrow>
                    (('''', Some \<lparr>ProwlarrOp = ''get_system_status'',
                                  ProwlarrErr = Some (''failed to make request: '' @ err),
                                  ProwlarrHttpCode = 0\<rparr>), w1)
                | Response resp \<Rightarrow>
                    if StatusCode resp \<noteq> 200
                    then (('''', Some \<lparr>ProwlarrOp = ''get_system_status'', ProwlarrErr = None,
                                       ProwlarrHttpCode = StatusCode resp\<rparr>), w1)
                    else
                      (case ReadBody resp of
                         Inl err \<Rightarrow>
                           (('''', Some \<lparr>ProwlarrOp = ''get_system_status'',
                                         ProwlarrErr = Some (''failed to read response: '' @ err),
                                         ProwlarrHttpCode = 0\<rparr>), w1)
                       | Inr body \<Rightarrow>
                           (case Unmarshal_SystemStatusResponse e body of
                              None \<Rightarrow>
                                (('''', Some \<lparr>ProwlarrOp = ''get_system_status'',
                                              ProwlarrErr = Some (''failed to parse response: ''
                                                                  @ json_error e body),
                                              ProwlarrHttpCode = 0\<rparr>), w1)
                            | Some status \<Rightarrow>
                                let (_, w2) = CacheVersion baseURL (SystemVersion status) 3600 w1
                                in ((SystemVersion status, None), w2))))"

definition CheckForUpdates :: "string \<Rightarrow> string \<Rightarrow> bool \<times> string option" where
  "CheckForUpdates url apiKey = (False, None)"

definition ProwlarrService_GetHealthEndpoint :: "string \<Rightarrow> string" where
  "ProwlarrService_GetHealthEndpoint baseURL = TrimRight baseURL ''/'' @ ''/api/v1/health''"


text \<open>
  Modelled from the spec: \<^verbatim>\<open>arr.ArrHealthCheck\<close>, the shared arr-family health check
  that \<^verbatim>\<open>ProwlarrService.CheckHealth\<close> calls (package arr is not among the sources).
  The model follows steps 1, 3 and 4 of the common algorithm shape: an empty URL is
  \<^verbatim>\<open>pending\<close> with no network call; the primary probe goes through the Transport
  Helper to the checker's health endpoint; a transport failure is \<^verbatim>\<open>offline\<close>, a
  non-2xx status \<^verbatim>\<open>error\<close>, a body that does not parse against the expected schema
  \<^verbatim>\<open>error\<close>. What the spec leaves open is taken from \<open>arr_open\<close>: the headers of
  the probe, the message texts, the HTTP status handed to the caller, the expected schema,
  and, after a probe that succeeded and parsed, the auxiliary signals and the assembly of
  the result (steps 5 to 7).
\<close>

record arr_open =
  arr_headers :: "string \<Rightarrow> (string \<times> string) list"
  arr_message :: "string \<Rightarrow> string \<Rightarrow> string"
  arr_caller :: "string \<Rightarrow> int"
  arr_schema :: "string \<Rightarrow> json option"
  arr_assemble :: "nat \<Rightarrow> response \<Rightarrow> json \<Rightarrow> world \<Rightarrow> (ServiceHealth \<times> int) \<times> world"

definition ArrHealthCheck ::
  "env \<Rightarrow> arr_open \<Rightarrow> string \<Rightarrow> string \<Rightarrow> (string \<Rightarrow> string) \<Rightarrow> world
     \<Rightarrow> (ServiceHealth \<times> int) \<times> world" where
  "ArrHealthCheck e opn url apiKey GetHealthEndpoint w =
     (let startTime = now w
      in if url = ''''
         then ((CreateHealthResponse startTime ''pending'' (arr_message opn ''pending'' '''') [],
                arr_caller opn ''pending''), w)
         else
           let (res, w1) = MakeRequestWithContext e (GetHealthEndpoint url) apiKey
                             (arr_headers opn apiKey) w
           in case res of
                TransportError err \<Rightarrow>
                  ((CreateHealthResponse startTime ''offline'' (arr_message opn ''offline'' err) [],
                    arr_caller opn ''offline''), w1)
              | Response resp \<Rightarrow>
                  if \<not> (200 \<le> StatusCode resp \<and> StatusCode resp < 300)
                  then ((CreateHealthResponse startTime ''error''
                           (arr_message opn ''error'' (show_int (StatusCode resp))) [],
                         arr_caller opn ''error''), w1)
                  else
                    (case ReadBody resp of
                       Inl err \<Rightarrow>
                         ((CreateHealthResponse startTime ''error'' (arr_message opn ''error'' err) [],
                           arr_caller opn ''error''), w1)
                     | Inr body \<Rightarrow>
                         (case arr_schema opn body of
                            None \<Rightarrow>
                              ((CreateHealthResponse startTime ''error''
                                  (arr_message opn ''error'' (json_error e body)) [],
                                arr_caller opn ''error''), w1)
                          | Some j \<Rightarrow> arr_assemble opn startTime resp j w1)))"

definition ProwlarrService_CheckHealth ::
  "env \<Rightarrow> arr_open \<Rightarrow> string \<Rightarrow> string \<Rightarrow> world \<Rightarrow> (ServiceHealth \<times> int) \<times> world" where
  "ProwlarrService_CheckHealth e opn url apiKey w =
     ArrHealthCheck e opn url apiKey ProwlarrService_GetHealthEndpoint w"

section \<open>The primary probe of each checker\<close>

text \<open>
  The request that each \<^verbatim>\<open>CheckHealth\<close> sends as its primary liveness probe, and, for
  the two checkers that start background tasks first, the state in which it is sent.
\<close>

definition autobrr_probe :: "string \<Rightarrow> string \<Rightarrow> request" where
  "autobrr_probe url apiKey =
     \<lparr>req_method = ''GET'', req_url = getEndpoint url ''/api/healthz/liveness'',
      req_apiKey = apiKey,
      req_headers = [(''auth_header'', ''X-Api-Token''), (''auth_value'', apiKey)]\<rparr>"

definition autobrr_before_probe :: "env \<Rightarrow> string \<Rightarrow> string \<Rightarrow> world \<Rightarrow> world" where
  "autobrr_before_probe e url apiKey w =
     snd (GetReleaseStats e url apiKey
            (snd (CheckUpdate e url apiKey (snd (GetVersion e url apiKey w)))))"

definition autobrr_after_probe :: "env \<Rightarrow> string \<Rightarrow> string \<Rightarrow> world \<Rightarrow> world" where
  "autobrr_after_probe e url apiKey w =
     (let w3 = autobrr_before_probe e url apiKey w
      in w3\<lparr>calls := calls w3 @ [autobrr_probe url apiKey]\<rparr>)"

text \<open>
  What \<^verbatim>\<open>GetIRCStatus\<close> returns where \<^verbatim>\<open>AutobrrService.CheckHealth\<close> calls it, after
  the probe.
\<close>

definition autobrr_irc_result :: "env \<Rightarrow> string \<Rightarrow> string \<Rightarrow> world \<Rightarrow> IRCStatus list \<times> string option" where
  "autobrr_irc_result e url apiKey w =
     fst (GetIRCStatus e url apiKey (autobrr_after_probe e url apiKey w))"

definition maintainerr_probe :: "string \<Rightarrow> request" where
  "maintainerr_probe url =
     \<lparr>req_method = ''GET'', req_url = MaintainerrService_GetHealthEndpoint url,
      req_apiKey = '''', req_headers = []\<rparr>"

definition maintainerr_before_probe :: "env \<Rightarrow> string \<Rightarrow> world \<Rightarrow> world" where
  "maintainerr_before_probe e url w = snd (getVersion e url w)"

definition general_probe :: "string \<Rightarrow> string \<Rightarrow> request" where
  "general_probe url apiKey =
     \<lparr>req_method = ''GET'', req_url = url, req_apiKey = apiKey,
      req_headers = (if apiKey \<noteq> '''' then [(''Authorization'', ''Bearer '' @ apiKey)] else [])\<rparr>"

definition prowlarr_probe :: "arr_open \<Rightarrow> string \<Rightarrow> string \<Rightarrow> request" where
  "prowlarr_probe opn url apiKey =
     \<lparr>req_method = ''GET'', req_url = ProwlarrService_GetHealthEndpoint url,
      req_apiKey = apiKey, req_headers = arr_headers opn apiKey\<rparr>"

section \<open>The status mapping as the specification words it\<close>


section \<open>Concrete environments\<close>

text \<open>The state and the responses of the examples.\<close>

definition world0 :: world where
  "world0 = \<lparr>store = Map.empty, cache_up = True, now = 0, calls = []\<rparr>"

definition ok_response :: "string \<Rightarrow> outcome" where
  "ok_response body = Response \<lparr>StatusCode = 200, X_Response_Time = '''', Body = Inr body\<rparr>"

definition response_500 :: "string \<Rightarrow> outcome" where
  "response_500 body = Response \<lparr>StatusCode = 500, X_Response_Time = '''', Body = Inr body\<rparr>"

text \<open>Bodies of the scenarios, and the JSON values that the syntax layer reads from them.\<close>

definition body_all_good :: string where
  \<open>body_all_good = ''{"status":"OK","message":"all good"}''\<close>


definition body_online :: string where
  \<open>body_online = ''{"status":"online"}''\<close>



definition body_kelvin :: string where
  "body_kelvin = ''O'' @ [CHR 0xE2, CHR 0x84, CHR 0xAA]"

definition body_status_kelvin :: string where
  \<open>body_status_kelvin = ''{"status":"'' @ body_kelvin @ ''"}''\<close>


text \<open>
  Two sub-statuses, one healthy and one enabled but unhealthy, a body that holds both in an
  array, a body that holds the unhealthy one alone, and one active collection.
\<close>

definition irc_good :: IRCStatus where
  "irc_good = \<lparr>Name = ''libera'', Healthy = True, Enabled = True\<rparr>"

definition irc_bad :: IRCStatus where
  "irc_bad = \<lparr>Name = ''oftc'', Healthy = False, Enabled = True\<rparr>"

definition body_two :: string where
  \<open>body_two = ''[{"name":"libera","healthy":true,"enabled":true},{"name":"oftc","healthy":false,"enabled":true}]''\<close>

definition body_one :: string where
  \<open>body_one = ''{"name":"oftc","healthy":false,"enabled":true}''\<close>

definition body_active :: string where
  \<open>body_active = ''{"isActive":true}''\<close>

definition irc_table :: "(string \<times> json) list" where
  "irc_table =
     [(body_two, JArray [IRCStatus_json irc_good, IRCStatus_json irc_bad]),
      (body_one, IRCStatus_json irc_bad),
      (body_active, JObject [(''isActive'', JBool True)]),
      (''[]'', JArray [])]"

text \<open>
  What \<^verbatim>\<open>json.Unmarshal\<close> gives for the bodies above as a \<^verbatim>\<open>Collection\<close> and as a
  \<^verbatim>\<open>[]Collection\<close>. An object decodes as a collection and not as a list, an array
  as a list and not as a collection. No key of the objects other than \<^verbatim>\<open>isActive\<close>
  names a field of \<^verbatim>\<open>Collection\<close>, and a key that names no field is skipped, so
  these objects decode to the zero value, and \<open>body_active\<close> to the zero value made
  active.
\<close>

definition collection_table :: "(string \<times> Collection) list" where
  "collection_table =
     [(body_active, Collection_zero\<lparr>IsActive := True\<rparr>),
      (body_one, Collection_zero),
      (body_all_good, Collection_zero),
      (body_online, Collection_zero),
      (body_status_kelvin, Collection_zero),
      (''{}'', Collection_zero)]"

definition collection_list_table :: "(string \<times> Collection list) list" where
  "collection_list_table =
     [(''[]'', []),
      (body_two, [Collection_zero, Collection_zero])]"

text \<open>
  The environments of the examples: \<open>env_of answer table\<close> has an upstream that answers a
  request by \<open>answer\<close>, whatever was asked before, and a JSON syntax layer that reads the
  texts of \<open>table\<close> and rejects every other text; the decoders of collections read the
  texts of \<open>table\<close> as the two tables above say. What \<^verbatim>\<open>json.Marshal\<close> writes is not
  read back in the examples, so \<open>json_text\<close> is a stand-in there. Every request can be
  built.
\<close>

definition env_of :: "(request \<Rightarrow> outcome) \<Rightarrow> (string \<times> json) list \<Rightarrow> env" where
  "env_of answer table =
     \<lparr>upstream = (\<lambda>log rq. answer rq),
      json_value = map_of table,
      json_first = map_of table,
      json_text = (\<lambda>j. case j of JNull \<Rightarrow> ''null'' | _ \<Rightarrow> ''[...]''),
      json_error = (\<lambda>body. ''invalid character''),
      ParseDuration = (\<lambda>s. None),
      StatusText = (\<lambda>c. if c = 500 then ''Internal Server Error'' else ''''),
      Unmarshal_Collection =
        (\<lambda>body. if map_of table body = None then None else map_of collection_table body),
      Unmarshal_Collection_list =
        (\<lambda>body. if map_of table body = None then None else map_of collection_list_table body),
      NewRequest_error = (\<lambda>method url. None)\<rparr>"

text \<open>
  An autobrr instance at \<^verbatim>\<open>http://x:7474\<close> that is alive and has no unhealthy IRC
  network, while every other endpoint (version, update, statistics) times out; one whose
  IRC endpoint times out as well; and an upstream that answers every request with the
  empty JSON object.
\<close>

definition autobrr_alive :: "request \<Rightarrow> outcome" where
  "autobrr_alive rq =
     (if req_url rq = ''http://x:7474/api/healthz/liveness'' then ok_response ''healthy''
      else if req_url rq = ''http://x:7474/api/irc'' then ok_response ''[]''
      else TransportError ''context deadline exceeded'')"

definition autobrr_alive_no_irc :: "request \<Rightarrow> outcome" where
  "autobrr_alive_no_irc rq =
     (if req_url rq = ''http://x:7474/api/healthz/liveness'' then ok_response ''healthy''
      else TransportError ''context deadline exceeded'')"

definition env_empty_object :: env where
  "env_empty_object = env_of (\<lambda>rq. ok_response ''{}'') [(''{}'', JObject [])]"

definition env_autobrr_alive :: env where
  "env_autobrr_alive = env_of autobrr_alive irc_table"

definition env_autobrr_alive_no_irc :: env where
  "env_autobrr_alive_no_irc = env_of autobrr_alive_no_irc irc_table"

text \<open>
  Upstreams that give every request the same answer: a refused connection, a 500 with one
  of three bodies, a 200 with one of eight bodies.
\<close>

definition env_refused :: env where
  "env_refused = env_of (\<lambda>rq. TransportError ''connection refused'') irc_table"

definition env_500 :: env where
  "env_500 = env_of (\<lambda>rq. response_500 ''Internal Server Error'') []"

definition env_500_nope :: env where
  "env_500_nope = env_of (\<lambda>rq. response_500 ''nope'') []"

definition env_500_OK :: env where
  "env_500_OK = env_of (\<lambda>rq. response_500 ''OK'') []"

definition env_200_nope :: env where
  "env_200_nope = env_of (\<lambda>rq. ok_response ''nope'') []"


definition env_200_empty :: env where
  "env_200_empty = env_of (\<lambda>rq. ok_response '''') []"






text \<open>
  A state whose cache holds, for \<^verbatim>\<open>http://x:7474\<close>, a version, an update flag and an IRC
  sub-status, all valid until the instant 100, with the clock at 50.
\<close>

definition world_cached :: world where
  "world_cached =
     \<lparr>store = [''http://x:7474'' \<mapsto> (''1.2.3'', 100), ''http://x:7474_update'' \<mapsto> (''true'', 100),
               ''http://x:7474_irc'' \<mapsto> (''[]'', 100)],
      cache_up = True, now = 50, calls = []\<rparr>"

definition open0 :: arr_open where
  "open0 =
     \<lparr>arr_headers = (\<lambda>apiKey. [(''X-Api-Key'', apiKey)]),
      arr_message = (\<lambda>status detail. detail),
      arr_caller = (\<lambda>status. 200),
      arr_schema = (\<lambda>body. None),
      arr_assemble = (\<lambda>startTime resp j w. ((CreateHealthResponse startTime ''online'' '''' [], 200), w))\<rparr>"

definition in_time :: schedule where
  "in_time = \<lparr>version_in_time = True, update_in_time = True\<rparr>"

definition late :: schedule where
  "late = \<lparr>version_in_time = False, update_in_time = False\<rparr>"


section \<open>Results along every path\<close>

text \<open>
  \<open>yields r Q\<close> says that the result \<open>r\<close> satisfies \<open>Q\<close>. The rules below walk through
  a function body branch by branch, keeping what each branch knows.
\<close>

definition yields :: "'a \<Rightarrow> ('a \<Rightarrow> bool) \<Rightarrow> bool" where
  "yields r Q \<longleftrightarrow> Q r"

lemma yields_Let: "yields (f t) Q \<Longrightarrow> yields (Let t f) Q"
  by (simp add: yields_def)

lemma yields_prod:
  "(\<And>a b. p = (a, b) \<Longrightarrow> yields (f a b) Q) \<Longrightarrow> yields (case p of (a, b) \<Rightarrow> f a b) Q"
  by (cases p) (simp add: yields_def)

lemma yields_prod_app:
  "(\<And>a b. p = (a, b) \<Longrightarrow> yields (f a b z) Q) \<Longrightarrow> yields ((case p of (a, b) \<Rightarrow> f a b) z) Q"
  by (cases p) (simp add: yields_def)

lemma yields_if:
  "(c \<Longrightarrow> yields a Q) \<Longrightarrow> (\<not> c \<Longrightarrow> yields b Q) \<Longrightarrow> yields (if c then a else b) Q"
  by (simp add: yields_def)

lemma yields_outcome:
  "(\<And>err. x = TransportError err \<Longrightarrow> yields (f err) Q) \<Longrightarrow>
   (\<And>resp. x = Response resp \<Longrightarrow> yields (g resp) Q) \<Longrightarrow>
   yields (case x of TransportError err \<Rightarrow> f err | Response resp \<Rightarrow> g resp) Q"
  by (cases x) (simp_all add: yields_def)

lemma yields_sum:
  "(\<And>a. x = Inl a \<Longrightarrow> yields (f a) Q) \<Longrightarrow> (\<And>b. x = Inr b \<Longrightarrow> yields (g b) Q) \<Longrightarrow>
   yields (case x of Inl a \<Rightarrow> f a | Inr b \<Rightarrow> g b) Q"
  by (cases x) (simp_all add: yields_def)

lemma yields_option:
  "(x = None \<Longrightarrow> yields a Q) \<Longrightarrow> (\<And>y. x = Some y \<Longrightarrow> yields (g y) Q) \<Longrightarrow>
   yields (case x of None \<Rightarrow> a | Some y \<Rightarrow> g y) Q"
  by (cases x) (simp_all add: yields_def)

lemmas yields_rules =
  yields_Let yields_prod yields_prod_app yields_if yields_outcome yields_sum yields_option


section \<open>The configuration guard\<close>

text \<open>
  Claim C1, as amended. Called with an empty URL, whatever the credential, no checker
  sends a request or touches the cache: the state comes back as it was. The autobrr
  checker answers \<^verbatim>\<open>pending\<close> (with 200 for the caller); the maintainerr and the
  generic-HTTP checker answer \<^verbatim>\<open>error\<close> with the message \<^verbatim>\<open>URL is required\<close>
  (with 400 for the caller); the prowlarr checker answers what the shared arr-family check
  answers, \<^verbatim>\<open>pending\<close>.
\<close>

theorem CheckHealth_empty_url:
  "AutobrrService_CheckHealth e sch '''' apiKey w =
     ((CreateHealthResponse (now w) ''pending'' ''Autobrr not configured'' [], 200), w)
   \<and> MaintainerrService_CheckHealth e sch '''' apiKey w =
     ((CreateHealthResponse (now w) ''error'' ''URL is required'' [], 400), w)
   \<and> GeneralService_CheckHealth e '''' apiKey w =
     ((CreateHealthResponse (now w) ''error'' ''URL is required'' [], 400), w)
   \<and> Status (fst (fst (ProwlarrService_CheckHealth e opn '''' apiKey w))) = ''pending''
   \<and> snd (ProwlarrService_CheckHealth e opn '''' apiKey w) = w"
  by (simp add: AutobrrService_CheckHealth_def MaintainerrService_CheckHealth_def
      GeneralService_CheckHealth_def ProwlarrService_CheckHealth_def ArrHealthCheck_def
      CreateHealthResponse_def)

text \<open>
  Claim C1 as it was stated fails for the maintainerr checker: with an empty URL and the
  credential \<^verbatim>\<open>abc\<close> its status is \<^verbatim>\<open>error\<close>, not \<^verbatim>\<open>pending\<close>.
\<close>

theorem CheckHealth_empty_url_not_pending:
  "Status (fst (fst (MaintainerrService_CheckHealth env_refused in_time '''' ''abc'' world0)))
     = ''error''
   \<and> Status (fst (fst (MaintainerrService_CheckHealth env_refused in_time '''' ''abc'' world0)))
     \<noteq> ''pending''"
  by (simp add: MaintainerrService_CheckHealth_def CreateHealthResponse_def)

section \<open>The HTTP status handed to the caller\<close>

text \<open>
  Claim C10. \<^verbatim>\<open>AutobrrService.CheckHealth\<close> returns 200 (\<^verbatim>\<open>http.StatusOK\<close>) as its
  second value on every path, for every URL, credential, upstream, schedule and state.
\<close>

theorem AutobrrService_CheckHealth_always_200:
  "snd (fst (AutobrrService_CheckHealth e sch url apiKey w)) = 200"
proof -
  have "yields (AutobrrService_CheckHealth e sch url apiKey w) (\<lambda>r. snd (fst r) = 200)"
    unfolding AutobrrService_CheckHealth_def
    by (intro yields_rules) (simp_all add: yields_def)
  then show ?thesis by (simp add: yields_def)
qed


section \<open>The primary probe decides\<close>

text \<open>What each checker returns when its primary probe fails in the transport.\<close>

lemma AutobrrService_probe_unreachable:
  assumes "upstream e (calls (autobrr_before_probe e url apiKey w)) (autobrr_probe url apiKey)
           = TransportError err"
    and "url \<noteq> ''''" and "apiKey \<noteq> ''''"
  shows "fst (AutobrrService_CheckHealth e sch url apiKey w)
         = (CreateHealthResponse (now w) ''offline'' (''Failed to connect: '' @ err) [], 200)"
proof -
  have "yields (AutobrrService_CheckHealth e sch url apiKey w)
         (\<lambda>r. fst r = (CreateHealthResponse (now w) ''offline'' (''Failed to connect: '' @ err) [], 200))"
    unfolding AutobrrService_CheckHealth_def
    using assms
    by (intro yields_rules)
       (simp_all add: yields_def Let_def MakeRequestWithContext_def autobrr_probe_def
          autobrr_before_probe_def)
  then show ?thesis by (simp add: yields_def)
qed

lemma MaintainerrService_probe_unreachable:
  assumes "upstream e (calls (maintainerr_before_probe e url w)) (maintainerr_probe url)
           = TransportError err"
    and "url \<noteq> ''''"
  shows "fst (MaintainerrService_CheckHealth e sch url apiKey w)
         = (CreateHealthResponse (now w) ''offline'' (''Failed to connect: '' @ err) [], 200)"
proof -
  have "yields (MaintainerrService_CheckHealth e sch url apiKey w)
         (\<lambda>r. fst r = (CreateHealthResponse (now w) ''offline'' (''Failed to connect: '' @ err) [], 200))"
    unfolding MaintainerrService_CheckHealth_def
    using assms
    by (intro yields_rules)
       (simp_all add: yields_def Let_def MakeRequestWithContext_def maintainerr_probe_def
          maintainerr_before_probe_def)
  then show ?thesis by (simp add: yields_def)
qed

lemma GeneralService_probe_unreachable:
  assumes "upstream e (calls w) (general_probe url apiKey) = TransportError err"
    and "url \<noteq> ''''"
  shows "fst (GeneralService_CheckHealth e url apiKey w)
         = (CreateHealthResponse (now w) ''offline'' (''Failed to connect: '' @ err) [], 503)"
proof -
  have "yields (GeneralService_CheckHealth e url apiKey w)
         (\<lambda>r. fst r = (CreateHealthResponse (now w) ''offline'' (''Failed to connect: '' @ err) [], 503))"
    unfolding GeneralService_CheckHealth_def
    using assms
    by (intro yields_rules)
       (simp_all add: yields_def Let_def MakeRequestWithContext_def general_probe_def)
  then show ?thesis by (simp add: yields_def)
qed

lemma ProwlarrService_probe_unreachable:
  assumes "upstream e (calls w) (prowlarr_probe opn url apiKey) = TransportError err"
    and "url \<noteq> ''''"
  shows "Status (fst (fst (ProwlarrService_CheckHealth e opn url apiKey w))) = ''offline''"
proof -
  have "yields (ProwlarrService_CheckHealth e opn url apiKey w)
         (\<lambda>r. Status (fst (fst r)) = ''offline'')"
    unfolding ProwlarrService_CheckHealth_def ArrHealthCheck_def
    using assms
    by (intro yields_rules)
       (simp_all add: yields_def Let_def MakeRequestWithContext_def prowlarr_probe_def
          CreateHealthResponse_def)
  then show ?thesis by (simp add: yields_def)
qed

text \<open>
  Claim C3. When the primary probe of a checker fails at the transport level (the
  Transport Helper returns an error: DNS, refused connection, TLS, expired deadline), the
  status of the HealthResult is exactly \<^verbatim>\<open>offline\<close>, hence neither \<^verbatim>\<open>error\<close> nor
  \<^verbatim>\<open>warning\<close>. A probe is sent when the URL, and for autobrr the credential too, is
  not empty; autobrr and maintainerr send it after their background tasks have made their
  requests. The prowlarr conjunct is about the arr-family check as modelled from the
  specification.
\<close>

theorem CheckHealth_transport_failure_offline:
  assumes "url \<noteq> ''''"
  shows
   "(apiKey \<noteq> '''' \<and>
     upstream e (calls (autobrr_before_probe e url apiKey w)) (autobrr_probe url apiKey)
       = TransportError err
     \<longrightarrow> Status (fst (fst (AutobrrService_CheckHealth e sch url apiKey w))) = ''offline'')
    \<and> (upstream e (calls (maintainerr_before_probe e url w)) (maintainerr_probe url)
          = TransportError err
        \<longrightarrow> Status (fst (fst (MaintainerrService_CheckHealth e sch url apiKey w))) = ''offline'')
    \<and> (upstream e (calls w) (general_probe url apiKey) = TransportError err
        \<longrightarrow> Status (fst (fst (GeneralService_CheckHealth e url apiKey w))) = ''offline'')
    \<and> (upstream e (calls w) (prowlarr_probe opn url apiKey) = TransportError err
        \<longrightarrow> Status (fst (fst (ProwlarrService_CheckHealth e opn url apiKey w))) = ''offline'')"
  using assms
  by (simp add: AutobrrService_probe_unreachable MaintainerrService_probe_unreachable
      GeneralService_probe_unreachable ProwlarrService_probe_unreachable CreateHealthResponse_def)

text \<open>
  Claim C3 at a concrete input: every request is refused, the URL is
  \<^verbatim>\<open>http://x:7474\<close> and the credential \<^verbatim>\<open>abc\<close>.
\<close>

theorem CheckHealth_transport_failure_offline_witness:
  "Status (fst (fst (AutobrrService_CheckHealth env_refused in_time
       ''http://x:7474'' ''abc'' world0))) = ''offline''
   \<and> Status (fst (fst (MaintainerrService_CheckHealth env_refused in_time
       ''http://x:7474'' ''abc'' world0))) = ''offline''
   \<and> Status (fst (fst (GeneralService_CheckHealth env_refused
       ''http://x:7474'' ''abc'' world0))) = ''offline''
   \<and> Status (fst (fst (ProwlarrService_CheckHealth env_refused open0
       ''http://x:7474'' ''abc'' world0))) = ''offline''"
  using CheckHealth_transport_failure_offline
    [where url = "''http://x:7474''" and apiKey = "''abc''" and w = world0 and opn = open0
       and e = env_refused and err = "''connection refused''" and sch = in_time]
  by (simp add: env_refused_def env_of_def)


text \<open>What each checker returns when its primary probe is answered with a bad status code.\<close>

lemma AutobrrService_probe_not_200:
  assumes "upstream e (calls (autobrr_before_probe e url apiKey w)) (autobrr_probe url apiKey)
           = Response resp"
    and "StatusCode resp \<noteq> 200"
    and "url \<noteq> ''''" and "apiKey \<noteq> ''''"
  shows "fst (AutobrrService_CheckHealth e sch url apiKey w)
         = (CreateHealthResponse (now w) ''error''
              (''Unexpected status code: '' @ show_int (StatusCode resp)) [], 200)"
proof -
  have "yields (AutobrrService_CheckHealth e sch url apiKey w)
         (\<lambda>r. fst r = (CreateHealthResponse (now w) ''error''
                         (''Unexpected status code: '' @ show_int (StatusCode resp)) [], 200))"
    unfolding AutobrrService_CheckHealth_def
    using assms
    by (intro yields_rules)
       (simp_all add: yields_def Let_def MakeRequestWithContext_def autobrr_probe_def
          autobrr_before_probe_def)
  then show ?thesis by (simp add: yields_def)
qed

lemma MaintainerrService_probe_ge_400:
  assumes "upstream e (calls (maintainerr_before_probe e url w)) (maintainerr_probe url)
           = Response resp"
    and "StatusCode resp \<ge> 400"
    and "url \<noteq> ''''"
  shows "Status (fst (fst (MaintainerrService_CheckHealth e sch url apiKey w))) = ''error''"
proof -
  have "yields (MaintainerrService_CheckHealth e sch url apiKey w)
         (\<lambda>r. Status (fst (fst r)) = ''error'')"
    unfolding MaintainerrService_CheckHealth_def
    using assms
    by (intro yields_rules)
       (simp_all add: yields_def Let_def MakeRequestWithContext_def maintainerr_probe_def
          maintainerr_before_probe_def CreateHealthResponse_def)
  then show ?thesis by (simp add: yields_def)
qed

lemma ProwlarrService_probe_not_2xx:
  assumes "upstream e (calls w) (prowlarr_probe opn url apiKey) = Response resp"
    and "\<not> (200 \<le> StatusCode resp \<and> StatusCode resp < 300)"
    and "url \<noteq> ''''"
  shows "Status (fst (fst (ProwlarrService_CheckHealth e opn url apiKey w))) = ''error''"
proof -
  have "yields (ProwlarrService_CheckHealth e opn url apiKey w)
         (\<lambda>r. Status (fst (fst r)) = ''error'')"
    unfolding ProwlarrService_CheckHealth_def ArrHealthCheck_def
    using assms
    by (intro yields_rules)
       (simp_all add: yields_def Let_def MakeRequestWithContext_def prowlarr_probe_def
          CreateHealthResponse_def)
  then show ?thesis by (simp add: yields_def)
qed

text \<open>
  The generic-HTTP checker reads the status code of the response only to hand it to its
  caller: the HealthResult depends on the response alone, and not on its status code.
\<close>

lemma GeneralService_result_of_response:
  assumes "upstream e (calls w) (general_probe url apiKey) = Response resp"
    and "url \<noteq> ''''"
  shows "fst (GeneralService_CheckHealth e url apiKey w)
         = fst (GeneralService_CheckHealth (e\<lparr>upstream := \<lambda>log rq. Response resp\<rparr>) url apiKey w)"
  using assms
  by (simp add: GeneralService_CheckHealth_def MakeRequestWithContext_def Let_def
      responseTime_ms_def general_probe_def split: sum.split option.split)

lemma GeneralService_ignores_StatusCode:
  assumes "url \<noteq> ''''"
  shows "fst (fst (GeneralService_CheckHealth
                    (e\<lparr>upstream := \<lambda>log rq. Response (resp\<lparr>StatusCode := c\<rparr>)\<rparr>) url apiKey w))
         = fst (fst (GeneralService_CheckHealth
                    (e\<lparr>upstream := \<lambda>log rq. Response resp\<rparr>) url apiKey w))"
  using assms
  by (simp add: GeneralService_CheckHealth_def MakeRequestWithContext_def Let_def
      responseTime_ms_def split: sum.split option.split)

lemma GeneralService_caller_status:
  assumes "upstream e (calls w) (general_probe url apiKey) = Response resp"
    and "url \<noteq> ''''"
  shows "snd (fst (GeneralService_CheckHealth e url apiKey w))
         = (case Body resp of Inl err \<Rightarrow> 500 | Inr body \<Rightarrow> StatusCode resp)"
proof -
  have "yields (GeneralService_CheckHealth e url apiKey w)
          (\<lambda>r. snd (fst r) = (case Body resp of Inl err \<Rightarrow> 500 | Inr body \<Rightarrow> StatusCode resp))"
    unfolding GeneralService_CheckHealth_def
    using assms
    by (intro yields_rules)
       (simp_all add: yields_def Let_def MakeRequestWithContext_def general_probe_def)
  then show ?thesis by (simp add: yields_def)
qed

text \<open>
  Claim C2, as amended. When the upstream answers the primary probe with HTTP 500, the
  autobrr and the maintainerr checker return the status \<^verbatim>\<open>error\<close>, and so does the
  arr-family check of prowlarr as modelled from the specification. The generic-HTTP
  checker hands the 500 to its caller and derives the HealthResult from the rest of the
  response: it is the HealthResult that the same response gives under any other status
  code \<open>c\<close>.
\<close>

theorem CheckHealth_http_500:
  assumes "url \<noteq> ''''" and "StatusCode resp = 500"
  shows
   "(apiKey \<noteq> '''' \<and>
     upstream e (calls (autobrr_before_probe e url apiKey w)) (autobrr_probe url apiKey)
       = Response resp
     \<longrightarrow> Status (fst (fst (AutobrrService_CheckHealth e sch url apiKey w))) = ''error'')
    \<and> (upstream e (calls (maintainerr_before_probe e url w)) (maintainerr_probe url)
          = Response resp
        \<longrightarrow> Status (fst (fst (MaintainerrService_CheckHealth e sch url apiKey w))) = ''error'')
    \<and> (upstream e (calls w) (prowlarr_probe opn url apiKey) = Response resp
        \<longrightarrow> Status (fst (fst (ProwlarrService_CheckHealth e opn url apiKey w))) = ''error'')
    \<and> (upstream e (calls w) (general_probe url apiKey) = Response resp
        \<longrightarrow> snd (fst (GeneralService_CheckHealth e url apiKey w)) = 500
            \<and> fst (fst (GeneralService_CheckHealth e url apiKey w))
              = fst (fst (GeneralService_CheckHealth
                   (e\<lparr>upstream := \<lambda>log rq. Response (resp\<lparr>StatusCode := c\<rparr>)\<rparr>) url apiKey w)))"
proof -
  have general:
    "fst (fst (GeneralService_CheckHealth e url apiKey w))
       = fst (fst (GeneralService_CheckHealth
            (e\<lparr>upstream := \<lambda>log rq. Response (resp\<lparr>StatusCode := c\<rparr>)\<rparr>) url apiKey w))"
    if "upstream e (calls w) (general_probe url apiKey) = Response resp"
    using GeneralService_result_of_response [OF that assms(1)]
      GeneralService_ignores_StatusCode
        [OF assms(1), where e = e and resp = resp and c = c and apiKey = apiKey and w = w]
    by simp
  have caller: "snd (fst (GeneralService_CheckHealth e url apiKey w)) = 500"
    if "upstream e (calls w) (general_probe url apiKey) = Response resp"
    using GeneralService_caller_status [OF that assms(1)] assms(2)
    by (simp split: sum.split)
  show ?thesis
    using assms general caller
    by (simp add: AutobrrService_probe_not_200 MaintainerrService_probe_ge_400
        ProwlarrService_probe_not_2xx CreateHealthResponse_def)
qed

text \<open>
  Claim C2 at a concrete input: every request is answered with 500 and the body
  \<^verbatim>\<open>nope\<close>; the generic-HTTP result is compared with the one under status code 200.
\<close>

theorem CheckHealth_http_500_witness:
  "Status (fst (fst (AutobrrService_CheckHealth env_500_nope in_time
       ''http://x:7474'' ''abc'' world0))) = ''error''
   \<and> Status (fst (fst (MaintainerrService_CheckHealth env_500_nope in_time
       ''http://x:7474'' ''abc'' world0))) = ''error''
   \<and> Status (fst (fst (ProwlarrService_CheckHealth env_500_nope open0
       ''http://x:7474'' ''abc'' world0))) = ''error''
   \<and> snd (fst (GeneralService_CheckHealth env_500_nope ''http://x:7474'' ''abc'' world0)) = 500
   \<and> fst (fst (GeneralService_CheckHealth env_500_nope ''http://x:7474'' ''abc'' world0))
     = fst (fst (GeneralService_CheckHealth env_200_nope ''http://x:7474'' ''abc'' world0))"
  using CheckHealth_http_500
    [where url = "''http://x:7474''" and apiKey = "''abc''" and w = world0 and opn = open0
       and e = env_500_nope and sch = in_time and c = 200
       and resp = "\<lparr>StatusCode = 500, X_Response_Time = '''', Body = Inr ''nope''\<rparr>"]
  by (simp add: env_500_nope_def env_200_nope_def env_of_def response_500_def ok_response_def)

text \<open>
  Claim C2 as it was stated fails for the generic-HTTP checker: a response with status
  code 500 and the body \<^verbatim>\<open>OK\<close> gives a status other than \<^verbatim>\<open>error\<close> (it is
  \<^verbatim>\<open>online\<close>).
\<close>

theorem GeneralService_CheckHealth_500_not_error:
  "upstream env_500_OK (calls world0) (general_probe ''http://x'' '''')
     = Response \<lparr>StatusCode = 500, X_Response_Time = '''', Body = Inr ''OK''\<rparr>
   \<and> Status (fst (fst (GeneralService_CheckHealth env_500_OK ''http://x'' '''' world0)))
     = ''online''
   \<and> Status (fst (fst (GeneralService_CheckHealth env_500_OK ''http://x'' '''' world0)))
     \<noteq> ''error''"
  by code_simp


section \<open>The generic-HTTP checker reads the body\<close>








section \<open>Lenient decoding of sub-statuses\<close>

lemma EqualFold_tags [simp]:
  "\<not> EqualFold ''name'' ''healthy''" "\<not> EqualFold ''name'' ''enabled''"
  "\<not> EqualFold ''healthy'' ''name''" "\<not> EqualFold ''healthy'' ''enabled''"
  "\<not> EqualFold ''enabled'' ''name''" "\<not> EqualFold ''enabled'' ''healthy''"
  by code_simp+

lemma EqualFold_refl [simp]: "EqualFold s s"
  by (simp add: EqualFold_def)

text \<open>What \<open>IRCStatus_json\<close> writes, the typed layer reads back.\<close>

lemma into_struct_IRCStatus_json:
  "into_struct IRCStatus_field IRCStatus_zero (IRCStatus_json s) = Some s"
  by (cases s) (simp add: IRCStatus_json_def IRCStatus_field_def IRCStatus_zero_def)

lemma into_elements_IRCStatus_json:
  "into_elements (into_struct IRCStatus_field) IRCStatus_zero (map IRCStatus_json xs) = Some xs"
  by (induction xs) (simp_all add: into_struct_IRCStatus_json)

lemma Unmarshal_IRCStatus_list_array:
  assumes "json_value e body = Some (JArray (map IRCStatus_json xs))"
  shows "Unmarshal_IRCStatus_list e body = Some xs"
  using assms by (simp add: Unmarshal_IRCStatus_list_def into_elements_IRCStatus_json)

lemma Unmarshal_IRCStatus_object:
  assumes "json_value e body = Some (IRCStatus_json s)"
  shows "Unmarshal_IRCStatus_list e body = None" and "Unmarshal_IRCStatus e body = Some s"
  using assms
  by (simp_all add: Unmarshal_IRCStatus_list_def Unmarshal_IRCStatus_def
      into_struct_IRCStatus_json) (simp add: IRCStatus_json_def)

lemma decode_IRCStatus_body_array:
  assumes "Unmarshal_IRCStatus_list e body = Some allStatus"
  shows "fst (decode_IRCStatus_body e url body w)
         = (filter (\<lambda>s. \<not> Healthy s \<and> Enabled s) allStatus, None)"
  using assms by (simp add: decode_IRCStatus_body_def Let_def split: prod.split)

lemma decode_IRCStatus_body_single:
  assumes "Unmarshal_IRCStatus_list e body = None" and "Unmarshal_IRCStatus e body = Some s"
  shows "fst (decode_IRCStatus_body e url body w)
         = (if \<not> Healthy s \<and> Enabled s then [s] else [], None)"
  using assms by (simp add: decode_IRCStatus_body_def Let_def split: prod.split)

lemma decode_IRCStatus_body_error:
  "snd (fst (decode_IRCStatus_body e url body w)) \<noteq> None
   \<longleftrightarrow> Unmarshal_IRCStatus_list e body = None \<and> Unmarshal_IRCStatus e body = None"
  by (simp add: decode_IRCStatus_body_def Let_def split: prod.split option.split)

lemma decode_Collections_body_array:
  assumes "Unmarshal_Collection_list e body = Some collections"
  shows "decode_Collections_body e body = (filter IsActive collections, None)"
  using assms by (simp add: decode_Collections_body_def)

lemma decode_Collections_body_single:
  assumes "Unmarshal_Collection_list e body = None" and "Unmarshal_Collection e body = Some c"
  shows "decode_Collections_body e body = (if IsActive c then [c] else [], None)"
  using assms by (simp add: decode_Collections_body_def)

lemma decode_Collections_body_error:
  "snd (decode_Collections_body e body) \<noteq> None
   \<longleftrightarrow> Unmarshal_Collection_list e body = None \<and> Unmarshal_Collection e body = None"
  by (simp add: decode_Collections_body_def split: option.split)

text \<open>
  \<^verbatim>\<open>GetIRCStatus\<close> hands the body of a 200 response to the decoding stage, when the
  service is configured and the cache has nothing for the URL.
\<close>

lemma GetIRCStatus_decodes_body:
  assumes "url \<noteq> ''''" and "apiKey \<noteq> ''''"
    and "GetIRCStatusFromCache url w = ''''"
    and "MakeRequestWithContext e (getEndpoint url ''/api/irc'') apiKey
           [(''auth_header'', ''X-Api-Token''), (''auth_value'', apiKey)] w = (Response resp, w1)"
    and "StatusCode resp = 200" and "Body resp = Inr body"
  shows "GetIRCStatus e url apiKey w = decode_IRCStatus_body e url body w1"
  using assms by (simp add: GetIRCStatus_def fetch_IRCStatus_def ReadBody_def)

text \<open>
  Claim C5. For every sub-status body the lenient decoder tries the array first and the
  single object only when the array failed, and reports a parse error exactly when both
  failed. A decoded array is filtered to the elements that are unhealthy and enabled (in
  their order); a decoded single object that is unhealthy and enabled is the one-element
  list of that object (and the empty list otherwise). In JSON terms: the array of the
  sub-statuses \<open>xs\<close> gives the unhealthy and enabled ones among \<open>xs\<close>, and the object of
  an unhealthy and enabled sub-status \<open>s\<close> alone gives \<open>[s]\<close>. The decoder of
  \<^verbatim>\<open>GetCollections\<close> follows the same order, with the collections' own filter (the
  active ones).
\<close>

theorem lenient_decoding:
  "(Unmarshal_IRCStatus_list e body = Some allStatus \<longrightarrow>
      fst (decode_IRCStatus_body e url body w)
      = (filter (\<lambda>s. \<not> Healthy s \<and> Enabled s) allStatus, None))
   \<and> (Unmarshal_IRCStatus_list e body = None \<and> Unmarshal_IRCStatus e body = Some s \<longrightarrow>
      fst (decode_IRCStatus_body e url body w)
      = (if \<not> Healthy s \<and> Enabled s then [s] else [], None))
   \<and> (snd (fst (decode_IRCStatus_body e url body w)) \<noteq> None
      \<longleftrightarrow> Unmarshal_IRCStatus_list e body = None \<and> Unmarshal_IRCStatus e body = None)
   \<and> (json_value e body = Some (JArray (map IRCStatus_json xs)) \<longrightarrow>
      fst (decode_IRCStatus_body e url body w)
      = (filter (\<lambda>s. \<not> Healthy s \<and> Enabled s) xs, None))
   \<and> (json_value e body = Some (IRCStatus_json s') \<and> \<not> Healthy s' \<and> Enabled s' \<longrightarrow>
      fst (decode_IRCStatus_body e url body w) = ([s'], None))
   \<and> (Unmarshal_Collection_list e body = Some collections \<longrightarrow>
      decode_Collections_body e body = (filter IsActive collections, None))
   \<and> (Unmarshal_Collection_list e body = None \<and> Unmarshal_Collection e body = Some c \<longrightarrow>
      decode_Collections_body e body = (if IsActive c then [c] else [], None))
   \<and> (snd (decode_Collections_body e body) \<noteq> None
      \<longleftrightarrow> Unmarshal_Collection_list e body = None \<and> Unmarshal_Collection e body = None)"
proof -
  have array: "Unmarshal_IRCStatus_list e body = Some allStatus \<longrightarrow>
      fst (decode_IRCStatus_body e url body w)
      = (filter (\<lambda>s. \<not> Healthy s \<and> Enabled s) allStatus, None)"
    by (simp add: decode_IRCStatus_body_array)
  have single: "Unmarshal_IRCStatus_list e body = None \<and> Unmarshal_IRCStatus e body = Some s \<longrightarrow>
      fst (decode_IRCStatus_body e url body w)
      = (if \<not> Healthy s \<and> Enabled s then [s] else [], None)"
    by (simp add: decode_IRCStatus_body_single)
  have json_array: "json_value e body = Some (JArray (map IRCStatus_json xs)) \<longrightarrow>
      fst (decode_IRCStatus_body e url body w)
      = (filter (\<lambda>s. \<not> Healthy s \<and> Enabled s) xs, None)"
    by (simp add: decode_IRCStatus_body_array Unmarshal_IRCStatus_list_array)
  have json_single: "json_value e body = Some (IRCStatus_json s') \<and> \<not> Healthy s' \<and> Enabled s' \<longrightarrow>
      fst (decode_IRCStatus_body e url body w) = ([s'], None)"
    by (simp add: decode_IRCStatus_body_single Unmarshal_IRCStatus_object)
  have collections: "Unmarshal_Collection_list e body = Some collections \<longrightarrow>
      decode_Collections_body e body = (filter IsActive collections, None)"
    by (simp add: decode_Collections_body_array)
  have collection: "Unmarshal_Collection_list e body = None \<and> Unmarshal_Collection e body = Some c \<longrightarrow>
      decode_Collections_body e body = (if IsActive c then [c] else [], None)"
    by (simp add: decode_Collections_body_single)
  show ?thesis
    by (intro conjI array single json_array json_single collections collection
        decode_IRCStatus_body_error decode_Collections_body_error)
qed


text \<open>
  Claim C5 at concrete inputs, the scenario of the specification: an array of a healthy and
  an enabled, unhealthy sub-status gives the unhealthy one alone; the unhealthy one
  un-wrapped gives the same one-element list; a body that is not JSON is a parse error; for
  the collections, the empty array gives no collection, one active collection un-wrapped
  gives that collection, and a body that is not JSON is a parse error.
\<close>

theorem lenient_decoding_witness:
  "fst (decode_IRCStatus_body env_refused
          ''http://x:7474'' body_two world0) = ([irc_bad], None)
   \<and> fst (decode_IRCStatus_body env_refused
          ''http://x:7474'' body_one world0) = ([irc_bad], None)
   \<and> snd (fst (decode_IRCStatus_body env_refused
          ''http://x:7474'' ''<html>'' world0)) \<noteq> None
   \<and> decode_Collections_body env_refused ''[]'' = ([], None)
   \<and> decode_Collections_body env_refused body_active
       = ([Collection_zero\<lparr>IsActive := True\<rparr>], None)
   \<and> snd (decode_Collections_body env_refused ''<html>'') \<noteq> None"
proof -
  let ?e = env_refused
  have two: "json_value ?e body_two = Some (JArray (map IRCStatus_json [irc_good, irc_bad]))"
    by code_simp
  have one: "json_value ?e body_one = Some (IRCStatus_json irc_bad)"
    by code_simp
  have bad: "\<not> Healthy irc_bad \<and> Enabled irc_bad" "\<not> (\<not> Healthy irc_good \<and> Enabled irc_good)"
    by (simp_all add: irc_bad_def irc_good_def)
  have html: "Unmarshal_IRCStatus_list ?e ''<html>'' = None" "Unmarshal_IRCStatus ?e ''<html>'' = None"
    "Unmarshal_Collection_list ?e ''<html>'' = None" "Unmarshal_Collection ?e ''<html>'' = None"
    by code_simp+
  have empty: "Unmarshal_Collection_list ?e ''[]'' = Some []"
    by code_simp
  have active: "Unmarshal_Collection_list ?e body_active = None"
    "Unmarshal_Collection ?e body_active = Some (Collection_zero\<lparr>IsActive := True\<rparr>)"
    by code_simp+
  have unhealthy: "filter (\<lambda>s. \<not> Healthy s \<and> Enabled s) [irc_good, irc_bad] = [irc_bad]"
    using bad by simp
  have "fst (decode_IRCStatus_body ?e ''http://x:7474'' body_two world0) = ([irc_bad], None)"
    using lenient_decoding [where e = ?e and body = body_two and url = "''http://x:7474''"
        and w = world0 and xs = "[irc_good, irc_bad]"] two unhealthy
    by simp
  moreover
  have "fst (decode_IRCStatus_body ?e ''http://x:7474'' body_one world0) = ([irc_bad], None)"
    using lenient_decoding [where e = ?e and body = body_one and url = "''http://x:7474''"
        and w = world0 and s' = irc_bad] one bad(1)
    by simp
  moreover
  have "snd (fst (decode_IRCStatus_body ?e ''http://x:7474'' ''<html>'' world0)) \<noteq> None"
    and "snd (decode_Collections_body ?e ''<html>'') \<noteq> None"
    using lenient_decoding [where e = ?e and body = "''<html>''" and url = "''http://x:7474''"
        and w = world0] html
    by simp_all
  moreover
  have "decode_Collections_body ?e ''[]'' = ([], None)"
    using lenient_decoding [where e = ?e and body = "''[]''" and collections = "[]"] empty
    by simp
  moreover
  have "decode_Collections_body ?e body_active = ([Collection_zero\<lparr>IsActive := True\<rparr>], None)"
    using lenient_decoding [where e = ?e and body = body_active
        and c = "Collection_zero\<lparr>IsActive := True\<rparr>"] active
    by simp
  ultimately show ?thesis
    by simp
qed


section \<open>The cache\<close>

text \<open>
  Claim C6: a cache entry is written only after a successful upstream call, and a failed
  call (transport error, status code outside 2xx, parse failure) writes nothing under its
  key. \<^verbatim>\<open>AutobrrService.CheckUpdate\<close> does not keep to this, as its evaluation at a
  concrete input shows: the update endpoint answers 500, the call returns \<^verbatim>\<open>false\<close>
  with no error, and the cache, which had no entry for the key, now holds \<^verbatim>\<open>false\<close>
  for two hours. A second call within that time, to an upstream that would now answer 200
  (an update is available), still returns \<^verbatim>\<open>false\<close> and sends no request.
\<close>

theorem CheckUpdate_caches_after_500:
  "store world0 ''http://x:7474_update'' = None
   \<and> fst (CheckUpdate env_500 ''http://x:7474'' ''abc'' world0) = (False, None)
   \<and> store (snd (CheckUpdate env_500 ''http://x:7474'' ''abc'' world0)) ''http://x:7474_update''
       = Some (''false'', 7200)
   \<and> fst (CheckUpdate env_200_empty ''http://x:7474'' ''abc''
            (snd (CheckUpdate env_500 ''http://x:7474'' ''abc'' world0))) = (False, None)
   \<and> length (calls (snd (CheckUpdate env_200_empty ''http://x:7474'' ''abc''
            (snd (CheckUpdate env_500 ''http://x:7474'' ''abc'' world0))))) = 1"
  by code_simp

text \<open>
  The sibling paths do what \<^verbatim>\<open>CheckUpdate\<close> misses: when \<^verbatim>\<open>GetVersion\<close> or
  \<^verbatim>\<open>GetSystemStatus\<close> returns an error (transport error, status other than 200,
  unreadable or unparsable body), the cache is as it was.
\<close>

lemma GetVersion_error_keeps_cache:
  assumes "snd (fst (GetVersion e url apiKey w)) \<noteq> None"
  shows "store (snd (GetVersion e url apiKey w)) = store w"
proof -
  have "yields (GetVersion e url apiKey w) (\<lambda>r. snd (fst r) \<noteq> None \<longrightarrow> store (snd r) = store w)"
    unfolding GetVersion_def
    by (intro yields_rules) (simp_all add: yields_def MakeRequestWithContext_def Let_def)
  with assms show ?thesis by (simp add: yields_def)
qed

lemma GetSystemStatus_error_keeps_cache:
  assumes "snd (fst (GetSystemStatus e baseURL apiKey w)) \<noteq> None"
  shows "store (snd (GetSystemStatus e baseURL apiKey w)) = store w"
proof -
  have "yields (GetSystemStatus e baseURL apiKey w)
          (\<lambda>r. snd (fst r) \<noteq> None \<longrightarrow> store (snd r) = store w)"
    unfolding GetSystemStatus_def
    by (intro yields_rules)
      (auto simp add: yields_def makeRequest_def Let_def split: option.splits)
  with assms show ?thesis by (simp add: yields_def)
qed


lemma cache_hit:
  assumes "cache_up w" and "store w key = Some (v, expiry)" and "now w < expiry"
  shows "GetVersionFromCache key w = v"
  using assms by (simp add: GetVersionFromCache_def)

text \<open>
  Claim C8, as amended. While the cache holds, for the key of a signal, an entry that has
  not expired and whose value is not empty, the fetch operation of that signal returns the
  cached value and leaves the state as it is: no request is sent and nothing is written.
  That is so for \<^verbatim>\<open>GetVersion\<close> of autobrr and \<^verbatim>\<open>getVersion\<close> of maintainerr, for
  \<^verbatim>\<open>GetSystemStatus\<close> when the URL is not empty, for \<^verbatim>\<open>CheckUpdate\<close> (whose value is
  whether the cached text is \<^verbatim>\<open>true\<close>), and for \<^verbatim>\<open>GetIRCStatus\<close> when URL and
  credential are not empty and the cached text decodes as a list of sub-statuses.
\<close>

theorem cached_value_no_network_call:
  assumes "cache_up w" and "now w < expiry" and "v \<noteq> ''''"
  shows
   "(store w url = Some (v, expiry) \<longrightarrow>
       GetVersion e url apiKey w = ((v, None), w)
       \<and> getVersion e url w = ((v, None), w)
       \<and> (url \<noteq> '''' \<longrightarrow> GetSystemStatus e url apiKey w = ((v, None), w)))
    \<and> (store w (url @ ''_update'') = Some (v, expiry) \<longrightarrow>
       CheckUpdate e url apiKey w = ((v = ''true'', None), w))
    \<and> (store w (url @ ''_irc'') = Some (v, expiry) \<and> url \<noteq> '''' \<and> apiKey \<noteq> ''''
        \<and> Unmarshal_IRCStatus_list e v = Some xs \<longrightarrow>
       GetIRCStatus e url apiKey w = ((xs, None), w))"
  using assms
  by (simp add: GetVersion_def getVersion_def GetSystemStatus_def CheckUpdate_def
      GetIRCStatus_def GetUpdateFromCache_def GetIRCStatusFromCache_def cache_hit)

text \<open>
  Claim C8 at a concrete input: the cache of \<^verbatim>\<open>http://x:7474\<close> holds the version
  \<^verbatim>\<open>1.2.3\<close>, the update flag \<^verbatim>\<open>true\<close> and the IRC sub-status \<^verbatim>\<open>[]\<close>, all
  valid until the instant 100, the clock is at 50, and the upstream refuses every request.
\<close>

theorem cached_value_no_network_call_witness:
  "GetVersion env_refused ''http://x:7474'' ''abc'' world_cached
     = ((''1.2.3'', None), world_cached)
   \<and> CheckUpdate env_refused ''http://x:7474'' ''abc'' world_cached
     = ((True, None), world_cached)
   \<and> GetIRCStatus env_refused ''http://x:7474'' ''abc'' world_cached
     = (([], None), world_cached)"
proof -
  have up: "cache_up world_cached" and clock: "now world_cached < 100"
    by (simp_all add: world_cached_def)
  have version: "store world_cached ''http://x:7474'' = Some (''1.2.3'', 100)"
    and update: "store world_cached (''http://x:7474'' @ ''_update'') = Some (''true'', 100)"
    and irc: "store world_cached (''http://x:7474'' @ ''_irc'') = Some (''[]'', 100)"
    by code_simp+
  have decodes: "Unmarshal_IRCStatus_list env_refused ''[]'' = Some []"
    by code_simp
  have "GetVersion env_refused ''http://x:7474'' ''abc'' world_cached
        = ((''1.2.3'', None), world_cached)"
    using cached_value_no_network_call
      [OF up clock, where v = "''1.2.3''" and url = "''http://x:7474''" and e = env_refused
         and apiKey = "''abc''"] version
    by simp
  moreover
  have "CheckUpdate env_refused ''http://x:7474'' ''abc'' world_cached
        = ((True, None), world_cached)"
    using cached_value_no_network_call
      [OF up clock, where v = "''true''" and url = "''http://x:7474''" and e = env_refused
         and apiKey = "''abc''"] update
    by simp
  moreover
  have "GetIRCStatus env_refused ''http://x:7474'' ''abc'' world_cached
        = (([], None), world_cached)"
    using cached_value_no_network_call
      [OF up clock, where v = "''[]''" and url = "''http://x:7474''" and e = env_refused
         and apiKey = "''abc''" and xs = "[]"] irc decodes
    by simp
  ultimately show ?thesis
    by simp
qed

text \<open>
  Claim C8 as it was stated fails when the cached value is the empty string. The upstream
  answers the version request with the empty JSON object; the first \<^verbatim>\<open>GetVersion\<close>
  caches the empty version for two hours; the second one, at the same instant, finds the
  entry unexpired and still sends a request.
\<close>

theorem GetVersion_empty_version_refetched:
  "store (snd (GetVersion env_empty_object ''http://x:7474'' ''abc'' world0)) ''http://x:7474''
     = Some ('''', 7200)
   \<and> now (snd (GetVersion env_empty_object ''http://x:7474'' ''abc'' world0)) < 7200
   \<and> length (calls (snd (GetVersion env_empty_object ''http://x:7474'' ''abc'' world0))) = 1
   \<and> length (calls (snd (GetVersion env_empty_object ''http://x:7474'' ''abc''
        (snd (GetVersion env_empty_object ''http://x:7474'' ''abc'' world0))))) = 2"
  by code_simp


text \<open>
  Two consecutive calls. A \<^verbatim>\<open>GetVersion\<close> that went to the network and obtained a
  version that is not empty leaves it in the cache for two hours, so that a second call at
  any instant \<open>t\<close> before that sends no request, whatever the upstream would answer;
  likewise for \<^verbatim>\<open>CheckUpdate\<close> after any response.
\<close>

lemma GetVersion_fills_cache:
  assumes "cache_up w" and "GetVersionFromCache url w = ''''"
    and "fst (GetVersion e url apiKey w) = (v, None)"
  shows "store (snd (GetVersion e url apiKey w)) url = Some (v, now w + 7200)
         \<and> cache_up (snd (GetVersion e url apiKey w))"
proof -
  have "yields (GetVersion e url apiKey w)
          (\<lambda>r. fst r = (v, None) \<longrightarrow> store (snd r) url = Some (v, now w + 7200) \<and> cache_up (snd r))"
    unfolding GetVersion_def
    using assms(1,2)
    by (intro yields_rules)
       (simp_all add: yields_def MakeRequestWithContext_def CacheVersion_def Let_def)
  with assms(3) show ?thesis by (simp add: yields_def)
qed

lemma GetVersion_twice:
  assumes "cache_up w" and "GetVersionFromCache url w = ''''"
    and "fst (GetVersion e url apiKey w) = (v, None)" and "v \<noteq> ''''"
    and "t < now w + 7200"
  shows "GetVersion e' url apiKey' ((snd (GetVersion e url apiKey w))\<lparr>now := t\<rparr>)
         = ((v, None), (snd (GetVersion e url apiKey w))\<lparr>now := t\<rparr>)"
  using GetVersion_fills_cache [OF assms(1-3)] assms(4,5)
  by (simp add: GetVersion_def GetVersionFromCache_def)

lemma CheckUpdate_fills_cache:
  assumes "cache_up w" and "GetUpdateFromCache url w = ''''"
    and "fst (CheckUpdate e url apiKey w) = (b, None)"
  shows "store (snd (CheckUpdate e url apiKey w)) (url @ ''_update'')
           = Some (if b then ''true'' else ''false'', now w + 7200)
         \<and> cache_up (snd (CheckUpdate e url apiKey w))"
proof -
  have "yields (CheckUpdate e url apiKey w)
          (\<lambda>r. fst r = (b, None) \<longrightarrow>
                store (snd r) (url @ ''_update'')
                  = Some (if b then ''true'' else ''false'', now w + 7200)
                \<and> cache_up (snd r))"
    unfolding CheckUpdate_def
    using assms(1,2)
    by (intro yields_rules)
       (auto simp add: yields_def MakeRequestWithContext_def CacheUpdate_def CacheVersion_def Let_def)
  with assms(3) show ?thesis by (simp add: yields_def)
qed

lemma CheckUpdate_twice:
  assumes "cache_up w" and "GetUpdateFromCache url w = ''''"
    and "fst (CheckUpdate e url apiKey w) = (b, None)"
    and "t < now w + 7200"
  shows "CheckUpdate e' url apiKey' ((snd (CheckUpdate e url apiKey w))\<lparr>now := t\<rparr>)
         = ((b, None), (snd (CheckUpdate e url apiKey w))\<lparr>now := t\<rparr>)"
proof -
  define w1 where "w1 = snd (CheckUpdate e url apiKey w)"
  have "store w1 (url @ ''_update'') = Some (if b then ''true'' else ''false'', now w + 7200)"
    and "cache_up w1"
    using CheckUpdate_fills_cache [OF assms(1-3)] by (simp_all add: w1_def)
  then have "CheckUpdate e' url apiKey' (w1\<lparr>now := t\<rparr>) = ((b, None), w1\<lparr>now := t\<rparr>)"
    using assms(4)
    by (simp add: CheckUpdate_def GetUpdateFromCache_def GetVersionFromCache_def)
  then show ?thesis by (simp add: w1_def)
qed


section \<open>Auxiliary signals\<close>

text \<open>
  \<^verbatim>\<open>AutobrrService.CheckHealth\<close> after a probe that was answered with 200 and a body
  that reads healthy: the IRC sub-status decides between \<^verbatim>\<open>online\<close> and
  \<^verbatim>\<open>warning\<close>, the version and update tasks only fill their two extras.
\<close>

lemma AutobrrService_after_healthy_probe:
  assumes "url \<noteq> ''''" and "apiKey \<noteq> ''''"
    and "upstream e (calls (autobrr_before_probe e url apiKey w)) (autobrr_probe url apiKey)
         = Response resp"
    and "StatusCode resp = 200" and "Body resp = Inr body"
    and "Trim (TrimSpace body) [CHR 0x22] = ''healthy'' \<or> Trim (TrimSpace body) [CHR 0x22] = ''OK''"
  shows "yields (AutobrrService_CheckHealth e sch url apiKey w)
     (\<lambda>r. (case snd (autobrr_irc_result e url apiKey w) of
             Some err \<Rightarrow>
               Status (fst (fst r)) = ''warning''
               \<and> Message (fst (fst r)) = ''Autobrr is running but IRC status check failed: '' @ err
               \<and> extras_get (Extras (fst (fst r))) ''details''
                 = Some (XMap [(''autobrr'',
                      XMap [(''irc'', XIRC (fst (autobrr_irc_result e url apiKey w)))])])
           | None \<Rightarrow>
               if fst (autobrr_irc_result e url apiKey w) = []
                  \<or> list_ex Healthy (fst (autobrr_irc_result e url apiKey w))
               then Status (fst (fst r)) = ''online''
                    \<and> Message (fst (fst r)) = ''Autobrr is running''
               else Status (fst (fst r)) = ''warning''
                    \<and> Message (fst (fst r))
                      = ''Autobrr is running but reports unhealthy IRC connections'')
        \<and> extras_get (Extras (fst (fst r))) ''version''
          = Some (XString (if version_in_time sch \<and> snd (fst (GetVersion e url apiKey w)) = None
                           then fst (fst (GetVersion e url apiKey w)) else ''''))
        \<and> set (map fst (Extras (fst (fst r))))
          \<subseteq> {''version'', ''responseTime'', ''updateAvailable'', ''details'', ''stats''})"
  unfolding AutobrrService_CheckHealth_def
  using assms
  by (intro yields_rules)
     (auto simp add: yields_def Let_def MakeRequestWithContext_def autobrr_probe_def
        autobrr_before_probe_def autobrr_after_probe_def autobrr_irc_result_def
        CreateHealthResponse_def extras_get_def ReadBody_def split: if_splits)

text \<open>
  \<^verbatim>\<open>MaintainerrService.CheckHealth\<close> after a probe that was answered below 400 with a
  body that parses: the status is \<^verbatim>\<open>online\<close> whatever became of the version task,
  whose error, if any, is the extra \<^verbatim>\<open>versionError\<close>.
\<close>

lemma MaintainerrService_after_parsed_probe:
  assumes "url \<noteq> ''''"
    and "upstream e (calls (maintainerr_before_probe e url w)) (maintainerr_probe url)
         = Response resp"
    and "StatusCode resp < 400" and "Body resp = Inr body"
    and "Unmarshal_StatusResponse e body = Some statusResponse"
  shows "yields (MaintainerrService_CheckHealth e sch url apiKey w)
     (\<lambda>r. Status (fst (fst r)) = ''online''
        \<and> Message (fst (fst r)) = ''Healthy''
        \<and> extras_get (Extras (fst (fst r))) ''versionError''
          = (if version_in_time sch
             then map_option (\<lambda>er. XString (ErrMaintainerr_Error e er)) (snd (fst (getVersion e url w)))
             else Some (XString ''version check timed out'')))"
  unfolding MaintainerrService_CheckHealth_def
  using assms
  by (intro yields_rules)
     (auto simp add: yields_def Let_def MakeRequestWithContext_def maintainerr_probe_def
        maintainerr_before_probe_def CreateHealthResponse_def extras_get_def ReadBody_def
        split: if_splits option.splits)

text \<open>
  Claim C7, as amended. When the primary probe succeeds: in the autobrr checker a failed
  IRC sub-status lookup gives the status \<^verbatim>\<open>warning\<close> with the failure reason appended
  to the message (the extras carry the placeholder IRC entry under \<^verbatim>\<open>details\<close>), an
  IRC lookup that succeeds decides alone between \<^verbatim>\<open>online\<close> and \<^verbatim>\<open>warning\<close>,
  and a version lookup that failed or came late only leaves the extra \<^verbatim>\<open>version\<close>
  empty: no extra holds its reason. In the maintainerr checker the status is
  \<^verbatim>\<open>online\<close> and the message \<^verbatim>\<open>Healthy\<close> whatever became of the version
  lookup, and the reason of a failed or late version lookup is attached as the extra
  \<^verbatim>\<open>versionError\<close>.
\<close>

theorem auxiliary_failure:
  assumes "url \<noteq> ''''"
  shows
   "(apiKey \<noteq> '''' \<and>
     upstream e (calls (autobrr_before_probe e url apiKey w)) (autobrr_probe url apiKey)
       = Response resp
     \<and> StatusCode resp = 200 \<and> Body resp = Inr body
     \<and> (Trim (TrimSpace body) [CHR 0x22] = ''healthy'' \<or> Trim (TrimSpace body) [CHR 0x22] = ''OK'')
     \<longrightarrow>
       (case snd (autobrr_irc_result e url apiKey w) of
          Some err \<Rightarrow>
            Status (fst (fst (AutobrrService_CheckHealth e sch url apiKey w))) = ''warning''
            \<and> Message (fst (fst (AutobrrService_CheckHealth e sch url apiKey w)))
              = ''Autobrr is running but IRC status check failed: '' @ err
            \<and> extras_get (Extras (fst (fst (AutobrrService_CheckHealth e sch url apiKey w))))
                  ''details''
              = Some (XMap [(''autobrr'',
                   XMap [(''irc'', XIRC (fst (autobrr_irc_result e url apiKey w)))])])
        | None \<Rightarrow>
            if fst (autobrr_irc_result e url apiKey w) = []
               \<or> list_ex Healthy (fst (autobrr_irc_result e url apiKey w))
            then Status (fst (fst (AutobrrService_CheckHealth e sch url apiKey w))) = ''online''
                 \<and> Message (fst (fst (AutobrrService_CheckHealth e sch url apiKey w)))
                   = ''Autobrr is running''
            else Status (fst (fst (AutobrrService_CheckHealth e sch url apiKey w))) = ''warning''
                 \<and> Message (fst (fst (AutobrrService_CheckHealth e sch url apiKey w)))
                   = ''Autobrr is running but reports unhealthy IRC connections'')
       \<and> extras_get (Extras (fst (fst (AutobrrService_CheckHealth e sch url apiKey w)))) ''version''
         = Some (XString (if version_in_time sch \<and> snd (fst (GetVersion e url apiKey w)) = None
                          then fst (fst (GetVersion e url apiKey w)) else ''''))
       \<and> set (map fst (Extras (fst (fst (AutobrrService_CheckHealth e sch url apiKey w)))))
         \<subseteq> {''version'', ''responseTime'', ''updateAvailable'', ''details'', ''stats''})
    \<and> (upstream e (calls (maintainerr_before_probe e url w)) (maintainerr_probe url)
          = Response resp
        \<and> StatusCode resp < 400 \<and> Body resp = Inr body
        \<and> Unmarshal_StatusResponse e body = Some statusResponse
        \<longrightarrow>
          Status (fst (fst (MaintainerrService_CheckHealth e sch url apiKey w))) = ''online''
          \<and> Message (fst (fst (MaintainerrService_CheckHealth e sch url apiKey w))) = ''Healthy''
          \<and> extras_get (Extras (fst (fst (MaintainerrService_CheckHealth e sch url apiKey w))))
                ''versionError''
            = (if version_in_time sch
               then map_option (\<lambda>er. XString (ErrMaintainerr_Error e er))
                      (snd (fst (getVersion e url w)))
               else Some (XString ''version check timed out'')))"
  using assms
    AutobrrService_after_healthy_probe [of url apiKey e w resp body sch]
    MaintainerrService_after_parsed_probe [of url e w resp body statusResponse sch apiKey]
  by (simp add: yields_def)


text \<open>
  Claim C7 at concrete inputs. An autobrr instance whose liveness probe answers
  \<^verbatim>\<open>healthy\<close> while its IRC endpoint times out: \<^verbatim>\<open>warning\<close>, with the reason in
  the message. A maintainerr instance whose status endpoint answers the empty object while
  the version task is late: \<^verbatim>\<open>online\<close>, with the reason in the extra
  \<^verbatim>\<open>versionError\<close>.
\<close>

theorem auxiliary_failure_witness:
  "Status (fst (fst (AutobrrService_CheckHealth env_autobrr_alive_no_irc in_time
       ''http://x:7474'' ''abc'' world0))) = ''warning''
   \<and> Message (fst (fst (AutobrrService_CheckHealth env_autobrr_alive_no_irc in_time
       ''http://x:7474'' ''abc'' world0)))
     = ''Autobrr is running but IRC status check failed: request failed: context deadline exceeded''
   \<and> Status (fst (fst (MaintainerrService_CheckHealth env_empty_object late
       ''http://x:6246'' '''' world0))) = ''online''
   \<and> Message (fst (fst (MaintainerrService_CheckHealth env_empty_object late
       ''http://x:6246'' '''' world0))) = ''Healthy''
   \<and> extras_get (Extras (fst (fst (MaintainerrService_CheckHealth env_empty_object late
       ''http://x:6246'' '''' world0)))) ''versionError''
     = Some (XString ''version check timed out'')"
proof -
  let ?a = env_autobrr_alive_no_irc
  have probe_a:
    "upstream ?a (calls (autobrr_before_probe ?a ''http://x:7474'' ''abc'' world0))
       (autobrr_probe ''http://x:7474'' ''abc'')
     = Response \<lparr>StatusCode = 200, X_Response_Time = '''', Body = Inr ''healthy''\<rparr>"
    by code_simp
  have healthy: "Trim (TrimSpace ''healthy'') [CHR 0x22] = ''healthy''"
    by code_simp
  have irc: "autobrr_irc_result ?a ''http://x:7474'' ''abc'' world0
             = ([\<lparr>Name = ''IRC'', Healthy = False, Enabled = False\<rparr>],
                Some ''request failed: context deadline exceeded'')"
    by code_simp
  have probe_m:
    "upstream env_empty_object (calls (maintainerr_before_probe env_empty_object ''http://x:6246'' world0))
       (maintainerr_probe ''http://x:6246'')
     = Response \<lparr>StatusCode = 200, X_Response_Time = '''', Body = Inr ''{}''\<rparr>"
    by code_simp
  have parsed: "Unmarshal_StatusResponse env_empty_object ''{}''
                = Some \<lparr>StatusVersion = '''', UpdateAvailable = False\<rparr>"
    by code_simp
  have "Status (fst (fst (AutobrrService_CheckHealth ?a in_time ''http://x:7474'' ''abc'' world0)))
          = ''warning''
        \<and> Message (fst (fst (AutobrrService_CheckHealth ?a in_time ''http://x:7474'' ''abc'' world0)))
          = ''Autobrr is running but IRC status check failed: request failed: context deadline exceeded''"
    using auxiliary_failure
      [where url = "''http://x:7474''" and apiKey = "''abc''" and e = ?a and w = world0
         and sch = in_time and body = "''healthy''"
         and resp = "\<lparr>StatusCode = 200, X_Response_Time = '''', Body = Inr ''healthy''\<rparr>"]
      probe_a healthy irc
    by simp
  moreover
  have "Status (fst (fst (MaintainerrService_CheckHealth env_empty_object late
            ''http://x:6246'' '''' world0))) = ''online''
        \<and> Message (fst (fst (MaintainerrService_CheckHealth env_empty_object late
            ''http://x:6246'' '''' world0))) = ''Healthy''
        \<and> extras_get (Extras (fst (fst (MaintainerrService_CheckHealth env_empty_object late
            ''http://x:6246'' '''' world0)))) ''versionError''
          = Some (XString ''version check timed out'')"
    using auxiliary_failure
      [where url = "''http://x:6246''" and apiKey = "''''" and e = env_empty_object and w = world0
         and sch = late and body = "''{}''"
         and resp = "\<lparr>StatusCode = 200, X_Response_Time = '''', Body = Inr ''{}''\<rparr>"
         and statusResponse = "\<lparr>StatusVersion = '''', UpdateAvailable = False\<rparr>"]
      probe_m parsed
    by (simp add: late_def)
  ultimately show ?thesis
    by simp
qed

text \<open>
  Claim C7 as it was stated fails for a failed version lookup. The autobrr instance is
  alive and has no unhealthy IRC network, its version endpoint times out, and the version
  task delivers within the grace period: the status is \<^verbatim>\<open>online\<close>, not
  \<^verbatim>\<open>warning\<close>, and the extra \<^verbatim>\<open>version\<close> is empty.
\<close>

theorem AutobrrService_version_failure_online:
  "snd (fst (GetVersion env_autobrr_alive ''http://x:7474'' ''abc'' world0))
     = Some ''context deadline exceeded''
   \<and> Status (fst (fst (AutobrrService_CheckHealth env_autobrr_alive in_time
         ''http://x:7474'' ''abc'' world0))) = ''online''
   \<and> Status (fst (fst (AutobrrService_CheckHealth env_autobrr_alive in_time
         ''http://x:7474'' ''abc'' world0))) \<noteq> ''warning''
   \<and> extras_get (Extras (fst (fst (AutobrrService_CheckHealth env_autobrr_alive in_time
         ''http://x:7474'' ''abc'' world0)))) ''version'' = Some (XString '''')"
  by code_simp

end
